theory Spec2Isabelle
  imports Complex_Main "HOL-Library.Word"
begin

unbundle bit_operations_syntax

section \<open>JavaScript values used by the middleware\<close>

text \<open>
  Exceptions of the JavaScript runtime that the modelled code can raise: a
  \<open>TypeError\<close> (iterating or reading a property of \<open>undefined\<close> or \<open>null\<close>) and
  a \<open>RangeError\<close> (a \<open>Buffer\<close> read outside the buffer).
\<close>

datatype error = TypeError | RangeError

text \<open>
  A property that holds a number, \<open>null\<close>, or is missing (\<open>undefined\<close>). Numbers
  are the exact rationals of the decoding formulas; the IEEE rounding of the
  JavaScript \<open>Number\<close> is not modelled.
\<close>

datatype jsnum = JUndefined | JNull | JNum rat

text \<open>Decimal rendering of a non-negative integer, as \<open>Number.prototype.toString\<close>.\<close>

definition digit_char :: "nat \<Rightarrow> char" where
  "digit_char d = char_of (48 + d)"

fun nat_to_string :: "nat \<Rightarrow> string" where
  "nat_to_string n =
     (if n < 10 then [digit_char n]
      else nat_to_string (n div 10) @ [digit_char (n mod 10)])"

declare nat_to_string.simps [simp del]

definition int_to_string :: "int \<Rightarrow> string" where
  "int_to_string i = (if i < 0 then CHR ''-'' # nat_to_string (nat (- i)) else nat_to_string (nat i))"

text \<open>Template-literal rendering \<open>`${x}`\<close> of an optional string and an optional number.\<close>

definition str_of_opt :: "string option \<Rightarrow> string" where
  "str_of_opt s = (case s of None \<Rightarrow> ''undefined'' | Some t \<Rightarrow> t)"

definition num_of_opt :: "nat option \<Rightarrow> string" where
  "num_of_opt n = (case n of None \<Rightarrow> ''undefined'' | Some k \<Rightarrow> nat_to_string k)"

section \<open>The JavaScript \<open>Map\<close> of tag positions\<close>

text \<open>
  A \<open>Map\<close> keeps its entries in insertion order, one entry per key. It is an
  association list; \<open>Map_set\<close> overwrites the value of an existing key in place
  and appends a new key at the end, \<open>Map_delete\<close> removes the key.
\<close>

record tag_data =
  td_tagId :: string
  td_alarmStatus :: nat

type_synonym tag_map = "(nat \<times> tag_data) list"

definition Map_has :: "tag_map \<Rightarrow> nat \<Rightarrow> bool" where
  "Map_has m k = (k \<in> set (map fst m))"

fun Map_set :: "nat \<Rightarrow> tag_data \<Rightarrow> tag_map \<Rightarrow> tag_map" where
  "Map_set k v [] = [(k, v)]"
| "Map_set k v (e # m) = (if fst e = k then (k, v) # m else e # Map_set k v m)"

definition Map_delete :: "nat \<Rightarrow> tag_map \<Rightarrow> tag_map" where
  "Map_delete k m = filter (\<lambda>e. fst e \<noteq> k) m"

section \<open>StateCache\<close>

text \<open>
  \<open>StateCache.cache\<close> is a \<open>Map\<close> from the key string to the module's tag map. Only
  lookups and replacements by key happen, so it is a partial function on keys.
\<close>

type_synonym state_cache = "string \<rightharpoonup> tag_map"

definition createKey :: "string option \<Rightarrow> nat option \<Rightarrow> string" where
  "createKey dev modA = str_of_opt dev @ '':'' @ num_of_opt modA"

text \<open>\<open>get\<close> returns \<open>cached || null\<close>; a \<open>Map\<close> object is always truthy.\<close>

definition stateCache_get :: "state_cache \<Rightarrow> string option \<Rightarrow> nat option \<Rightarrow> tag_map option" where
  "stateCache_get cache dev modA = cache (createKey dev modA)"

text \<open>\<open>set\<close> stores a copy \<open>new Map(tagDataMap)\<close>; its argument is always a \<open>Map\<close> here.\<close>

definition stateCache_set :: "state_cache \<Rightarrow> string option \<Rightarrow> nat option \<Rightarrow> tag_map \<Rightarrow> state_cache" where
  "stateCache_set cache dev modA tagDataMap = cache(createKey dev modA \<mapsto> tagDataMap)"

section \<open>The intermediate message (output of the parsers)\<close>

record item =
  uPos :: nat
  alarmStatus :: nat
  tagId :: string
  action :: "string option"

record sensor =
  sensorAddr :: nat
  readings :: "(string \<times> jsnum) list"

text \<open>\<open>sensor[key]\<close>: the value of an own property, \<open>undefined\<close> when it is missing.\<close>

definition sensor_prop :: "sensor \<Rightarrow> string \<Rightarrow> jsnum" where
  "sensor_prop s k = (case map_of (readings s) k of None \<Rightarrow> JUndefined | Some v \<Rightarrow> v)"

record module_info =
  mi_modAddr :: nat
  mi_modId :: "string option"
  mi_uTotal :: "nat option"
  mi_fwVer :: "string option"

record meta_info =
  voltage :: "rat option"
  current :: "rat option"
  mainPower :: bool
  backupPower :: bool

record module_block =
  mb_modAddr :: "nat option"
  mb_modId :: "string option"
  mb_items :: "item list option"

record device_info =
  dv_ip :: string
  dv_mac :: string

text \<open>
  The parsed message is one flat object; a field that a message type does not
  set is \<open>undefined\<close> (\<open>None\<close>).
\<close>

record parsed_data =
  topic :: string
  message :: "string option"
  deviceType :: "string option"
  deviceId :: "string option"
  messageType :: "string option"
  ts :: string
  messageId :: "string option"
  modAddr :: "nat option"
  modId :: "string option"
  uTotal :: "nat option"
  onlineCount :: "nat option"
  items :: "item list option"
  sensors :: "sensor list option"
  modules :: "module_info list option"
  meta :: "meta_info option"
  doorState :: "string option"
  result :: "string option"
  originalReq :: "string option"
  colorMap :: "nat list option"
  data :: "module_block list option"
  device :: "device_info option"
  model :: "string option"
  fwVer :: "string option"
  ip :: "string option"
  mask :: "string option"
  gatewayIp :: "string option"
  mac :: "string option"

section \<open>Unified events (output of the normalizer)\<close>

datatype event_type =
  SYS_TELEMETRY | SYS_RFID_EVENT | SYS_RFID_SNAPSHOT | SYS_STATE_CHANGE
  | SYS_DEVICE_INFO | SYS_LIFECYCLE | SYS_REQUIRE_SYNC

record identity =
  id_deviceId :: "string option"
  id_deviceType :: string
  id_modAddr :: "nat option"
  id_sensorAddr :: nat

datatype payload_value =
  RfidValue "string option" string nat nat
  | SnapshotValue "string option" "(nat \<times> string \<times> nat) list"
  | ReasonValue string
  | NumValue jsnum
  | StrValue string
  | FlagValue nat
  | DeviceValue string string
  | ModuleValue "string option" "nat option" "string option"

datatype payload_raw =
  NoRaw
  | RawModId "string option"
  | RawPower bool bool
  | RawDoor "string option" "string option"
  | RawResult "string option" "string option"

record event =
  ev_identity :: identity
  ev_type :: event_type
  ev_ts :: string
  ev_key :: string
  ev_value :: payload_value
  ev_raw :: payload_raw

text \<open>The base identity \<open>{ deviceId, deviceType }\<close> and its spread into an event identity.\<close>

type_synonym base_identity = "string option \<times> string"

definition spread :: "base_identity \<Rightarrow> nat option \<Rightarrow> nat \<Rightarrow> identity" where
  "spread ident modA sensA =
     \<lparr>id_deviceId = fst ident, id_deviceType = snd ident, id_modAddr = modA, id_sensorAddr = sensA\<rparr>"

section \<open>UnifyNormalizer\<close>

subsection \<open>RFID: diff path (V5008) and patch path (V6800)\<close>

definition rfid_event :: "base_identity \<Rightarrow> nat option \<Rightarrow> string \<Rightarrow> string option \<Rightarrow> string \<Rightarrow> nat \<Rightarrow> nat \<Rightarrow> event" where
  "rfid_event ident modA t act tid u alarm =
     \<lparr>ev_identity = spread ident modA u, ev_type = SYS_RFID_EVENT, ev_ts = t,
      ev_key = ''rfid_event'', ev_value = RfidValue act tid u alarm, ev_raw = NoRaw\<rparr>"

definition snapshot_event :: "base_identity \<Rightarrow> nat option \<Rightarrow> string \<Rightarrow> string option \<Rightarrow> tag_map \<Rightarrow> event" where
  "snapshot_event ident modA t mid m =
     \<lparr>ev_identity = spread ident modA 0, ev_type = SYS_RFID_SNAPSHOT, ev_ts = t,
      ev_key = ''rfid_snapshot'',
      ev_value = SnapshotValue mid (map (\<lambda>e. (fst e, td_tagId (snd e), td_alarmStatus (snd e))) m),
      ev_raw = NoRaw\<rparr>"

definition require_sync_event :: "base_identity \<Rightarrow> nat option \<Rightarrow> string \<Rightarrow> event" where
  "require_sync_event ident modA t =
     \<lparr>ev_identity = spread ident modA 0, ev_type = SYS_REQUIRE_SYNC, ev_ts = t,
      ev_key = ''require_sync'', ev_value = ReasonValue ''cache_miss'', ev_raw = NoRaw\<rparr>"

text \<open>The loop \<open>for (const item of items) currTags.set(item.uPos, {...})\<close>.\<close>

definition tag_of_item :: "item \<Rightarrow> tag_data" where
  "tag_of_item it = \<lparr>td_tagId = tagId it, td_alarmStatus = alarmStatus it\<rparr>"

fun buildCurrTags :: "item list \<Rightarrow> tag_map \<Rightarrow> tag_map" where
  "buildCurrTags [] m = m"
| "buildCurrTags (it # its) m = buildCurrTags its (Map_set (uPos it) (tag_of_item it) m)"

definition diff_event :: "base_identity \<Rightarrow> nat option \<Rightarrow> string \<Rightarrow> string \<Rightarrow> nat \<times> tag_data \<Rightarrow> event" where
  "diff_event ident modA t act e =
     rfid_event ident modA t (Some act) (td_tagId (snd e)) (fst e) (td_alarmStatus (snd e))"

text \<open>
  \<open>_processV5008Rfid\<close>. Iterating \<open>items\<close> when it is \<open>undefined\<close> throws inside the
  \<open>async\<close> function, which rejects its promise; the cache is untouched then.
\<close>

definition processV5008Rfid :: "parsed_data \<Rightarrow> base_identity \<Rightarrow> state_cache \<Rightarrow> (error + event list) \<times> state_cache" where
  "processV5008Rfid pd ident cache =
     (let prevTags = (case stateCache_get cache (fst ident) (modAddr pd) of
                        Some m \<Rightarrow> m | None \<Rightarrow> [])
      in case items pd of
           None \<Rightarrow> (Inl TypeError, cache)
         | Some its \<Rightarrow>
             (let currTags = buildCurrTags its [];
                  detached = map (diff_event ident (modAddr pd) (ts pd) ''detached'')
                               (filter (\<lambda>e. \<not> Map_has currTags (fst e)) prevTags);
                  attached = map (diff_event ident (modAddr pd) (ts pd) ''attached'')
                               (filter (\<lambda>e. \<not> Map_has prevTags (fst e)) currTags);
                  cache' = stateCache_set cache (fst ident) (modAddr pd) currTags
              in (Inr (detached @ attached
                        @ [snapshot_event ident (modAddr pd) (ts pd) (modId pd) currTags]),
                  cache')))"

definition passthrough_event :: "base_identity \<Rightarrow> nat option \<Rightarrow> string \<Rightarrow> item \<Rightarrow> event" where
  "passthrough_event ident modA t it =
     rfid_event ident modA t (action it) (tagId it) (uPos it) (alarmStatus it)"

text \<open>The patch loop over one module's items: the working copy and the events pushed.\<close>

fun patchItems :: "base_identity \<Rightarrow> nat option \<Rightarrow> string \<Rightarrow> item list \<Rightarrow> tag_map \<Rightarrow> event list \<Rightarrow> tag_map \<times> event list" where
  "patchItems ident modA t [] shadow results = (shadow, results)"
| "patchItems ident modA t (it # its) shadow results =
     (let shadow' = (if action it = Some ''attached'' then Map_set (uPos it) (tag_of_item it) shadow
                     else if action it = Some ''detached'' then Map_delete (uPos it) shadow
                     else shadow)
      in patchItems ident modA t its shadow' (results @ [passthrough_event ident modA t it]))"

text \<open>The body of \<open>for (const moduleData of data)\<close> in \<open>_processV6800Rfid\<close>.\<close>

definition processV6800Module :: "base_identity \<Rightarrow> string \<Rightarrow> module_block \<Rightarrow> event list \<Rightarrow> state_cache \<Rightarrow> (error + event list) \<times> state_cache" where
  "processV6800Module ident t md results cache =
     (case stateCache_get cache (fst ident) (mb_modAddr md) of
        None \<Rightarrow>
          (case mb_items md of
             None \<Rightarrow> (Inl TypeError, cache)
           | Some its \<Rightarrow>
               (Inr (results @ map (passthrough_event ident (mb_modAddr md) t) its
                       @ [require_sync_event ident (mb_modAddr md) t]), cache))
      | Some currentShadow \<Rightarrow>
          (case mb_items md of
             None \<Rightarrow> (Inl TypeError, cache)
           | Some its \<Rightarrow>
               (let (updatedShadow, results') =
                      patchItems ident (mb_modAddr md) t its currentShadow results;
                    cache' = stateCache_set cache (fst ident) (mb_modAddr md) updatedShadow
                in (Inr (results' @ [snapshot_event ident (mb_modAddr md) t (mb_modId md) updatedShadow]),
                    cache'))))"

fun processV6800Modules :: "base_identity \<Rightarrow> string \<Rightarrow> module_block list \<Rightarrow> event list \<Rightarrow> state_cache \<Rightarrow> (error + event list) \<times> state_cache" where
  "processV6800Modules ident t [] results cache = (Inr results, cache)"
| "processV6800Modules ident t (md # mds) results cache =
     (case processV6800Module ident t md results cache of
        (Inl e, cache') \<Rightarrow> (Inl e, cache')
      | (Inr results', cache') \<Rightarrow> processV6800Modules ident t mds results' cache')"

definition processV6800Rfid :: "parsed_data \<Rightarrow> base_identity \<Rightarrow> state_cache \<Rightarrow> (error + event list) \<times> state_cache" where
  "processV6800Rfid pd ident cache =
     (case data pd of
        None \<Rightarrow> (Inl TypeError, cache)
      | Some mds \<Rightarrow> processV6800Modules ident (ts pd) mds [] cache)"

subsection \<open>Telemetry, heartbeat, door state, responses, init\<close>

definition telemetry_event :: "base_identity \<Rightarrow> nat option \<Rightarrow> nat \<Rightarrow> string \<Rightarrow> string \<Rightarrow> jsnum \<Rightarrow> payload_raw \<Rightarrow> event" where
  "telemetry_event ident modA sensA t k v r =
     \<lparr>ev_identity = spread ident modA sensA, ev_type = SYS_TELEMETRY, ev_ts = t,
      ev_key = k, ev_value = NumValue v, ev_raw = r\<rparr>"

text \<open>The body of the sensor loop of \<open>_flattenTelemetry\<close>: the events pushed for one sensor.\<close>

definition flattenSensor :: "parsed_data \<Rightarrow> base_identity \<Rightarrow> string \<Rightarrow> string \<Rightarrow> sensor \<Rightarrow> event list" where
  "flattenSensor pd ident tempKey humKey s =
     (if sensor_prop s tempKey = JNull \<and> sensor_prop s humKey = JNull then []
      else (if sensor_prop s tempKey \<noteq> JNull
            then [telemetry_event ident (modAddr pd) (sensorAddr s) (ts pd) ''temperature''
                    (sensor_prop s tempKey) (RawModId (modId pd))]
            else [])
         @ (if sensor_prop s humKey \<noteq> JNull
            then [telemetry_event ident (modAddr pd) (sensorAddr s) (ts pd) ''humidity''
                    (sensor_prop s humKey) (RawModId (modId pd))]
            else []))"

definition flattenTelemetry :: "parsed_data \<Rightarrow> base_identity \<Rightarrow> string \<Rightarrow> string \<Rightarrow> event list" where
  "flattenTelemetry pd ident tempKey humKey =
     (case sensors pd of
        None \<Rightarrow> []
      | Some ss \<Rightarrow> concat (map (flattenSensor pd ident tempKey humKey) ss))"

definition flattenNoiseSensor :: "parsed_data \<Rightarrow> base_identity \<Rightarrow> sensor \<Rightarrow> event list" where
  "flattenNoiseSensor pd ident s =
     (if sensor_prop s ''noise'' = JNull then []
      else [telemetry_event ident (modAddr pd) (sensorAddr s) (ts pd) ''noise''
              (sensor_prop s ''noise'') (RawModId (modId pd))])"

definition flattenNoiseTelemetry :: "parsed_data \<Rightarrow> base_identity \<Rightarrow> event list" where
  "flattenNoiseTelemetry pd ident =
     (case sensors pd of
        None \<Rightarrow> []
      | Some ss \<Rightarrow> concat (map (flattenNoiseSensor pd ident) ss))"

definition processHeartbeat :: "parsed_data \<Rightarrow> base_identity \<Rightarrow> event list" where
  "processHeartbeat pd ident =
     (case meta pd of
        None \<Rightarrow> []
      | Some m \<Rightarrow>
          (case voltage m of
             None \<Rightarrow> []
           | Some v \<Rightarrow> [telemetry_event ident (Some 0) 0 (ts pd) ''voltage'' (JNum v)
                          (RawPower (mainPower m) (backupPower m))])
          @ (case current m of
               None \<Rightarrow> []
             | Some c \<Rightarrow> [telemetry_event ident (Some 0) 0 (ts pd) ''current'' (JNum c)
                            (RawPower (mainPower m) (backupPower m))])
          @ [\<lparr>ev_identity = spread ident (Some 0) 0, ev_type = SYS_LIFECYCLE, ev_ts = ts pd,
               ev_key = ''device_status'',
               ev_value = StrValue (if mainPower m then ''online'' else ''backup_power''),
               ev_raw = RawPower (mainPower m) (backupPower m)\<rparr>])"

definition createDoorStateObject :: "parsed_data \<Rightarrow> base_identity \<Rightarrow> event list" where
  "createDoorStateObject pd ident =
     [\<lparr>ev_identity = spread ident (modAddr pd) 0, ev_type = SYS_STATE_CHANGE, ev_ts = ts pd,
       ev_key = ''door_state'',
       ev_value = FlagValue (if doorState pd = Some ''01'' then 1 else 0),
       ev_raw = RawDoor (modId pd) (doorState pd)\<rparr>]"

definition createResponseObject :: "parsed_data \<Rightarrow> base_identity \<Rightarrow> event list" where
  "createResponseObject pd ident =
     [\<lparr>ev_identity = spread ident (Some 0) 0, ev_type = SYS_STATE_CHANGE, ev_ts = ts pd,
       ev_key = ''operation_result'',
       ev_value = FlagValue (if result pd = Some ''Success'' then 1 else 0),
       ev_raw = RawResult (result pd) (originalReq pd)\<rparr>]"

definition splitV6800Init :: "parsed_data \<Rightarrow> base_identity \<Rightarrow> event list" where
  "splitV6800Init pd ident =
     (case device pd of
        None \<Rightarrow> []
      | Some d \<Rightarrow> [\<lparr>ev_identity = spread ident (Some 0) 0, ev_type = SYS_DEVICE_INFO, ev_ts = ts pd,
                     ev_key = ''device_info'', ev_value = DeviceValue (dv_ip d) (dv_mac d),
                     ev_raw = NoRaw\<rparr>])
     @ (case modules pd of
          None \<Rightarrow> []
        | Some ms \<Rightarrow>
            map (\<lambda>m. \<lparr>ev_identity = spread ident (Some (mi_modAddr m)) 0, ev_type = SYS_DEVICE_INFO,
                       ev_ts = ts pd, ev_key = ''module_info'',
                       ev_value = ModuleValue (mi_modId m) (mi_uTotal m) (mi_fwVer m),
                       ev_raw = NoRaw\<rparr>) ms)"

subsection \<open>Dispatch\<close>

text \<open>A string is truthy when it is defined and not empty.\<close>

definition truthy_str :: "string option \<Rightarrow> bool" where
  "truthy_str s = (case s of None \<Rightarrow> False | Some t \<Rightarrow> t \<noteq> [])"

text \<open>
  \<open>_processV5008\<close>: the \<open>switch (messageType)\<close> compares with \<open>===\<close> against the
  literals \<open>'OpeAck'\<close>, \<open>'LabelState'\<close>, \<open>'TemHum'\<close>, \<open>'Noise'\<close>, \<open>'HeartBeat'\<close> and
  \<open>'HEARTBEAT'\<close>; every other value falls through to \<open>return results\<close>, the empty
  array.
\<close>

definition processV5008 :: "parsed_data \<Rightarrow> state_cache \<Rightarrow> (error + event list) \<times> state_cache" where
  "processV5008 pd cache =
     (let ident = (deviceId pd, ''V5008'') in
      if messageType pd = Some ''OpeAck'' then
        (if truthy_str (result pd) then (Inr (createResponseObject pd ident), cache)
         else if doorState pd \<noteq> None then (Inr (createDoorStateObject pd ident), cache)
         else (Inr [], cache))
      else if messageType pd = Some ''LabelState'' then processV5008Rfid pd ident cache
      else if messageType pd = Some ''TemHum'' then
        (Inr (flattenTelemetry pd ident ''temperature'' ''humidity''), cache)
      else if messageType pd = Some ''Noise'' then (Inr (flattenNoiseTelemetry pd ident), cache)
      else if messageType pd = Some ''HeartBeat'' \<or> messageType pd = Some ''HEARTBEAT'' then
        (Inr (processHeartbeat pd ident), cache)
      else (Inr [], cache))"

definition processV6800 :: "parsed_data \<Rightarrow> state_cache \<Rightarrow> (error + event list) \<times> state_cache" where
  "processV6800 pd cache =
     (let ident = (deviceId pd, ''V6800'') in
      if messageType pd = Some ''LABEL_STATE'' then processV6800Rfid pd ident cache
      else if messageType pd = Some ''TEM_HUM'' then
        (Inr (flattenTelemetry pd ident ''temperature'' ''humidity''), cache)
      else if messageType pd = Some ''DOOR_STATE'' then (Inr (createDoorStateObject pd ident), cache)
      else if messageType pd = Some ''INIT'' then (Inr (splitV6800Init pd ident), cache)
      else if messageType pd = Some ''OPE_ACK'' then (Inr (createResponseObject pd ident), cache)
      else if messageType pd = Some ''HEARTBEAT'' then (Inr (processHeartbeat pd ident), cache)
      else (Inr [], cache))"

text \<open>
  \<open>normalize\<close>. The result is the settled value of the promise it returns:
  \<open>Inr\<close> the event array, \<open>Inl\<close> a rejection. The \<open>try\<close> block holds the validity
  check and \<open>return this._processV5008(parsedData)\<close> (or \<open>_processV6800\<close>); both
  are \<open>async\<close> functions, so the call itself never throws and hands back a
  promise, which is returned without \<open>await\<close>. The \<open>catch\<close> clause therefore sees
  no error of the processors: their rejection is the rejection of \<open>normalize\<close>.
\<close>

definition normalizeData :: "parsed_data option \<Rightarrow> state_cache \<Rightarrow> (error + event list) \<times> state_cache" where
  "normalizeData parsedData cache =
     (case parsedData of
        None \<Rightarrow> (Inr [], cache)
      | Some pd \<Rightarrow>
          if \<not> truthy_str (deviceType pd) then (Inr [], cache)
          else if deviceType pd = Some ''V5008'' then processV5008 pd cache
          else if deviceType pd = Some ''V6800'' then processV6800 pd cache
          else (Inr [], cache))"

section \<open>Node.js \<open>Buffer\<close> primitives\<close>

type_synonym buffer = "8 word list"

text \<open>Sequencing of computations that may throw: the first exception wins.\<close>

fun bind_err :: "error + 'a \<Rightarrow> ('a \<Rightarrow> error + 'b) \<Rightarrow> error + 'b" where
  "bind_err (Inl e) f = Inl e"
| "bind_err (Inr x) f = f x"

text \<open>\<open>readUInt8\<close> and \<open>readInt8\<close> throw a \<open>RangeError\<close> outside \<open>0 .. length - 1\<close>.\<close>

definition readUInt8 :: "buffer \<Rightarrow> int \<Rightarrow> error + nat" where
  "readUInt8 buf offset =
     (if 0 \<le> offset \<and> offset < int (length buf) then Inr (unat (buf ! nat offset))
      else Inl RangeError)"

definition readInt8 :: "buffer \<Rightarrow> int \<Rightarrow> error + int" where
  "readInt8 buf offset =
     (if 0 \<le> offset \<and> offset < int (length buf) then Inr (sint (buf ! nat offset))
      else Inl RangeError)"

text \<open>
  \<open>subarray(start, end)\<close>: a negative index counts from the end, both indices are
  clamped to the buffer, and an empty range gives the empty buffer.
\<close>

definition clamp_index :: "buffer \<Rightarrow> int \<Rightarrow> nat" where
  "clamp_index buf i =
     (if i < 0 then nat (max (int (length buf) + i) 0) else min (nat i) (length buf))"

definition subarray :: "buffer \<Rightarrow> int \<Rightarrow> int \<Rightarrow> buffer" where
  "subarray buf start fin =
     (let s = clamp_index buf start; e = clamp_index buf fin
      in if e \<le> s then [] else take (e - s) (drop s buf))"

definition hex_digit_upper :: "nat \<Rightarrow> char" where
  "hex_digit_upper d = (if d < 10 then char_of (48 + d) else char_of (55 + d))"

definition hex_digit_lower :: "nat \<Rightarrow> char" where
  "hex_digit_lower d = (if d < 10 then char_of (48 + d) else char_of (87 + d))"

text \<open>\<open>buf.toString('hex').toUpperCase()\<close>.\<close>

definition toHexUpper :: "buffer \<Rightarrow> string" where
  "toHexUpper buf =
     concat (map (\<lambda>b. [hex_digit_upper (unat b div 16), hex_digit_upper (unat b mod 16)]) buf)"

text \<open>\<open>n.toString(16).padStart(2, '0')\<close> for a byte value \<open>n\<close>.\<close>

definition hex2_lower :: "nat \<Rightarrow> string" where
  "hex2_lower n = [hex_digit_lower (n div 16), hex_digit_lower (n mod 16)]"

definition hex2_upper :: "nat \<Rightarrow> string" where
  "hex2_upper n = [hex_digit_upper (n div 16), hex_digit_upper (n mod 16)]"

text \<open>\<open>buf.toString('ascii')\<close>: the highest bit of every byte is cleared.\<close>

definition toAscii :: "buffer \<Rightarrow> string" where
  "toAscii buf = map (\<lambda>b. char_of (unat b mod 128)) buf"

fun join_with :: "string \<Rightarrow> string list \<Rightarrow> string" where
  "join_with sep [] = []"
| "join_with sep [x] = x"
| "join_with sep (x # y # ys) = x @ sep @ join_with sep (y # ys)"

text \<open>\<open>s.split(c)\<close> for a one-character separator.\<close>

fun split_acc :: "char \<Rightarrow> string \<Rightarrow> string \<Rightarrow> string list" where
  "split_acc c [] cur = [rev cur]"
| "split_acc c (x # xs) cur =
     (if x = c then rev cur # split_acc c xs [] else split_acc c xs (x # cur))"

definition split_str :: "char \<Rightarrow> string \<Rightarrow> string list" where
  "split_str c s = split_acc c s []"

text \<open>Array indexing \<open>xs[i]\<close>: \<open>undefined\<close> past the end.\<close>

definition index_opt :: "'a list \<Rightarrow> nat \<Rightarrow> 'a option" where
  "index_opt xs i = (if i < length xs then Some (xs ! i) else None)"

section \<open>V5008Parser\<close>

text \<open>
  \<open>readBigUIntBE\<close> with its default \<open>bytes = 4\<close> (no caller passes another
  width). The accumulator is updated by \<open>value = (value << 8) | byte\<close>; both
  operators work on 32-bit two's complement integers, so the accumulator is a
  32-bit word and the returned \<open>Number\<close> is its signed reading.
\<close>

fun readBigUIntBE_loop :: "buffer \<Rightarrow> int \<Rightarrow> nat list \<Rightarrow> 32 word \<Rightarrow> error + 32 word" where
  "readBigUIntBE_loop buf offset [] v = Inr v"
| "readBigUIntBE_loop buf offset (i # is) v =
     bind_err (readUInt8 buf (offset + int i))
       (\<lambda>b. readBigUIntBE_loop buf offset is (push_bit 8 v OR of_nat b))"

definition readBigUIntBE :: "buffer \<Rightarrow> int \<Rightarrow> error + int" where
  "readBigUIntBE buf offset =
     (if offset + 4 > int (length buf) then Inr 0
      else bind_err (readBigUIntBE_loop buf offset [0, 1, 2, 3] 0) (\<lambda>v. Inr (sint v)))"

text \<open>
  \<open>parseSignedDecimal\<close>. Which of \<open>null\<close> and a number is returned is as in the
  code. The number is the exact value of
  \<open>Math.abs(intPart) + fracPart / 100\<close> with its sign; the code computes it in
  IEEE double arithmetic, whose rounding is not modelled, so only the
  distinction between \<open>null\<close> and a number is taken from this definition.
\<close>

definition parseSignedDecimal :: "buffer \<Rightarrow> int \<Rightarrow> error + jsnum" where
  "parseSignedDecimal buf offset =
     (if offset + 1 \<ge> int (length buf) then Inr JNull
      else bind_err (readInt8 buf offset) (\<lambda>intPart.
           bind_err (readUInt8 buf (offset + 1)) (\<lambda>fracPart.
             if intPart = 0 \<and> fracPart = 0 then Inr JNull
             else (let v = of_int \<bar>intPart\<bar> + of_nat fracPart / 100
                   in Inr (JNum (if intPart < 0 then - v else v))))))"

definition parseIpAddress :: "buffer \<Rightarrow> int \<Rightarrow> error + string" where
  "parseIpAddress buf offset =
     (if offset + 3 \<ge> int (length buf) then Inr ''0.0.0.0''
      else bind_err (readUInt8 buf offset) (\<lambda>a.
           bind_err (readUInt8 buf (offset + 1)) (\<lambda>b.
           bind_err (readUInt8 buf (offset + 2)) (\<lambda>c.
           bind_err (readUInt8 buf (offset + 3)) (\<lambda>d.
             Inr (join_with ''.'' (map nat_to_string [a, b, c, d])))))))"

text \<open>The loop of \<open>parseHeartbeat\<close>; the first argument counts the iterations left of ten.\<close>

fun heartbeat_loop :: "nat \<Rightarrow> buffer \<Rightarrow> int \<Rightarrow> module_info list \<Rightarrow> error + module_info list" where
  "heartbeat_loop 0 buf offset mods = Inr mods"
| "heartbeat_loop (Suc n) buf offset mods =
     (if offset + 9 > int (length buf) - 4 then Inr mods
      else bind_err (readUInt8 buf offset) (\<lambda>mA.
           bind_err (readBigUIntBE buf (offset + 1)) (\<lambda>mId.
           bind_err (readUInt8 buf (offset + 5)) (\<lambda>uT.
             heartbeat_loop n buf (offset + 6)
               (if 1 \<le> mA \<and> mA \<le> 5
                then mods @ [\<lparr>mi_modAddr = mA, mi_modId = Some (int_to_string mId),
                               mi_uTotal = Some uT, mi_fwVer = None\<rparr>]
                else mods)))))"

definition parseHeartbeat :: "buffer \<Rightarrow> parsed_data \<Rightarrow> string \<Rightarrow> error + parsed_data option" where
  "parseHeartbeat buf res mid =
     bind_err (heartbeat_loop 10 buf 1 []) (\<lambda>mods.
       Inr (Some (res\<lparr>messageId := Some mid, modules := Some mods,
                      meta := Some \<lparr>voltage = Some (25 / 2), current = Some (4 / 5),
                                    mainPower = True, backupPower = False\<rparr>\<rparr>)))"

definition parseDoorState :: "buffer \<Rightarrow> parsed_data \<Rightarrow> string \<Rightarrow> error + parsed_data option" where
  "parseDoorState buf res mid =
     bind_err (readUInt8 buf 1) (\<lambda>mA.
     bind_err (readBigUIntBE buf 2) (\<lambda>mId.
     bind_err (readUInt8 buf 6) (\<lambda>st.
       Inr (Some (res\<lparr>messageId := Some mid, modAddr := Some mA,
                      modId := Some (int_to_string mId), doorState := Some (hex2_lower st)\<rparr>)))))"

text \<open>The tag loop of \<open>parseLabelState\<close>; the first argument is \<open>onlineCount - i\<close>.\<close>

fun labelState_loop :: "nat \<Rightarrow> buffer \<Rightarrow> int \<Rightarrow> item list \<Rightarrow> error + item list" where
  "labelState_loop 0 buf offset its = Inr its"
| "labelState_loop (Suc n) buf offset its =
     (if offset + 6 > int (length buf) - 4 then Inr its
      else bind_err (readUInt8 buf offset) (\<lambda>u.
           bind_err (readUInt8 buf (offset + 1)) (\<lambda>al.
             labelState_loop n buf (offset + 6)
               (its @ [\<lparr>uPos = u, alarmStatus = al,
                         tagId = toHexUpper (subarray buf (offset + 2) (offset + 6)),
                         action = None\<rparr>]))))"

definition parseLabelState :: "buffer \<Rightarrow> parsed_data \<Rightarrow> error + parsed_data option" where
  "parseLabelState buf res =
     bind_err (readUInt8 buf 0) (\<lambda>mA.
     bind_err (readBigUIntBE buf 1) (\<lambda>mId.
     bind_err (readUInt8 buf 5) (\<lambda>reserved.
     bind_err (readUInt8 buf 6) (\<lambda>uT.
     bind_err (readUInt8 buf 7) (\<lambda>oc.
     bind_err (labelState_loop oc buf 8 []) (\<lambda>its.
     bind_err (readBigUIntBE buf (int (length buf) - 4)) (\<lambda>mid.
       Inr (Some (res\<lparr>messageId := Some (int_to_string mid), modAddr := Some mA,
                      modId := Some (int_to_string mId), uTotal := Some uT,
                      onlineCount := Some oc, items := Some its\<rparr>)))))))))"

text \<open>The loops of \<open>parseTemHum\<close> (six slots) and \<open>parseNoise\<close> (three slots).\<close>

fun temHum_loop :: "nat \<Rightarrow> buffer \<Rightarrow> int \<Rightarrow> sensor list \<Rightarrow> error + sensor list" where
  "temHum_loop 0 buf offset ss = Inr ss"
| "temHum_loop (Suc n) buf offset ss =
     (if offset + 5 > int (length buf) - 4 then Inr ss
      else bind_err (readUInt8 buf offset) (\<lambda>sA.
             if 10 \<le> sA \<and> sA \<le> 15
             then bind_err (parseSignedDecimal buf (offset + 1)) (\<lambda>temp.
                  bind_err (parseSignedDecimal buf (offset + 3)) (\<lambda>hum.
                    temHum_loop n buf (offset + 5)
                      (ss @ [\<lparr>sensorAddr = sA, readings = [(''temp'', temp), (''hum'', hum)]\<rparr>])))
             else temHum_loop n buf (offset + 5)
                    (ss @ [\<lparr>sensorAddr = sA, readings = [(''temp'', JNull), (''hum'', JNull)]\<rparr>])))"

definition parseTemHum :: "buffer \<Rightarrow> parsed_data \<Rightarrow> error + parsed_data option" where
  "parseTemHum buf res =
     bind_err (readUInt8 buf 0) (\<lambda>mA.
     bind_err (readBigUIntBE buf 1) (\<lambda>mId.
     bind_err (temHum_loop 6 buf 5 []) (\<lambda>ss.
     bind_err (readBigUIntBE buf (int (length buf) - 4)) (\<lambda>mid.
       Inr (Some (res\<lparr>messageId := Some (int_to_string mid), modAddr := Some mA,
                      modId := Some (int_to_string mId), sensors := Some ss\<rparr>))))))"

fun noise_loop :: "nat \<Rightarrow> buffer \<Rightarrow> int \<Rightarrow> sensor list \<Rightarrow> error + sensor list" where
  "noise_loop 0 buf offset ss = Inr ss"
| "noise_loop (Suc n) buf offset ss =
     (if offset + 3 > int (length buf) - 4 then Inr ss
      else bind_err (readUInt8 buf offset) (\<lambda>sA.
             if 16 \<le> sA \<and> sA \<le> 18
             then bind_err (parseSignedDecimal buf (offset + 1)) (\<lambda>noise.
                    noise_loop n buf (offset + 3)
                      (ss @ [\<lparr>sensorAddr = sA, readings = [(''noise'', noise)]\<rparr>]))
             else noise_loop n buf (offset + 3)
                    (ss @ [\<lparr>sensorAddr = sA, readings = [(''noise'', JNull)]\<rparr>])))"

definition parseNoise :: "buffer \<Rightarrow> parsed_data \<Rightarrow> error + parsed_data option" where
  "parseNoise buf res =
     bind_err (readUInt8 buf 0) (\<lambda>mA.
     bind_err (readBigUIntBE buf 1) (\<lambda>mId.
     bind_err (noise_loop 3 buf 5 []) (\<lambda>ss.
     bind_err (readBigUIntBE buf (int (length buf) - 4)) (\<lambda>mid.
       Inr (Some (res\<lparr>messageId := Some (int_to_string mid), modAddr := Some mA,
                      modId := Some (int_to_string mId), sensors := Some ss\<rparr>))))))"

text \<open>The colour loop of \<open>parseAAResponse\<close>: \<open>while (offset < buffer.length - 4)\<close>.\<close>

function colorMap_loop :: "buffer \<Rightarrow> int \<Rightarrow> nat list \<Rightarrow> error + nat list" where
  "colorMap_loop buf offset cm =
     (if offset < int (length buf) - 4
      then (case readUInt8 buf offset of
              Inl e \<Rightarrow> Inl e
            | Inr b \<Rightarrow> colorMap_loop buf (offset + 1) (cm @ [b]))
      else Inr cm)"
  by pat_completeness auto
termination
  by (relation "measure (\<lambda>(buf, offset, cm). nat (int (length buf) - 4 - offset))") auto

declare colorMap_loop.simps [simp del]

text \<open>
  \<open>parseAAResponse\<close>. The local \<open>deviceId\<close> read at offset 1 is not stored; the
  read is kept because it runs before the result code is read.
\<close>

definition parseAAResponse :: "buffer \<Rightarrow> parsed_data \<Rightarrow> string \<Rightarrow> error + parsed_data option" where
  "parseAAResponse buf res mid =
     bind_err (readBigUIntBE buf 1) (\<lambda>devId.
     bind_err (readUInt8 buf 5) (\<lambda>resultCode.
       (let resultText = (if resultCode = 161 then ''Success'' else ''Failure'');
            reqLength = int (length buf) - 10;
            origReq = toHexUpper (subarray buf 6 (6 + reqLength));
            res1 = res\<lparr>messageId := Some mid, result := Some resultText,
                        originalReq := Some origReq\<rparr>
        in if take 2 origReq = ''E4''
           then bind_err (colorMap_loop buf (6 + reqLength) []) (\<lambda>cm.
                  Inr (Some (res1\<lparr>colorMap := Some cm\<rparr>)))
           else Inr (Some res1))))"

definition parseDeviceInfoResponse :: "buffer \<Rightarrow> parsed_data \<Rightarrow> string \<Rightarrow> error + parsed_data option" where
  "parseDeviceInfoResponse buf res mid =
     bind_err (readBigUIntBE buf 6) (\<lambda>fw.
     bind_err (parseIpAddress buf 10) (\<lambda>ipA.
     bind_err (parseIpAddress buf 14) (\<lambda>maskA.
     bind_err (parseIpAddress buf 18) (\<lambda>gwA.
       Inr (Some (res\<lparr>messageId := Some mid, model := Some (toAscii (subarray buf 2 6)),
                      fwVer := Some (int_to_string fw), ip := Some ipA, mask := Some maskA,
                      gatewayIp := Some gwA,
                      mac := Some (join_with '':'' (map (\<lambda>b. hex2_upper (unat b))
                                                     (subarray buf 22 28)))\<rparr>))))))"

text \<open>The loop of \<open>parseModuleInfoResponse\<close>: \<open>while (offset + 5 <= buffer.length - 4)\<close>.\<close>

function moduleInfo_loop :: "buffer \<Rightarrow> int \<Rightarrow> module_info list \<Rightarrow> error + module_info list" where
  "moduleInfo_loop buf offset mods =
     (if offset + 5 \<le> int (length buf) - 4
      then (case readUInt8 buf offset of
              Inl e \<Rightarrow> Inl e
            | Inr mA \<Rightarrow>
                (case readBigUIntBE buf (offset + 1) of
                   Inl e \<Rightarrow> Inl e
                 | Inr fw \<Rightarrow>
                     moduleInfo_loop buf (offset + 5)
                       (mods @ [\<lparr>mi_modAddr = mA, mi_modId = None, mi_uTotal = None,
                                  mi_fwVer = Some (int_to_string fw)\<rparr>])))
      else Inr mods)"
  by pat_completeness auto
termination
  by (relation "measure (\<lambda>(buf, offset, mods). nat (int (length buf) - offset))") auto

declare moduleInfo_loop.simps [simp del]

definition parseModuleInfoResponse :: "buffer \<Rightarrow> parsed_data \<Rightarrow> string \<Rightarrow> error + parsed_data option" where
  "parseModuleInfoResponse buf res mid =
     bind_err (moduleInfo_loop buf 2 []) (\<lambda>mods.
       Inr (Some (res\<lparr>messageId := Some mid, modules := Some mods\<rparr>)))"

text \<open>\<open>parseRfidEvent\<close> skips the \<open>0xBB\<close> header and hands the rest to \<open>parseLabelState\<close>.\<close>

definition parseRfidEvent :: "buffer \<Rightarrow> parsed_data \<Rightarrow> string \<Rightarrow> error + parsed_data option" where
  "parseRfidEvent buf res mid = parseLabelState (subarray buf 1 (int (length buf))) res"

definition parseOpeAck :: "buffer \<Rightarrow> parsed_data \<Rightarrow> error + parsed_data option" where
  "parseOpeAck buf res =
     bind_err (readUInt8 buf 0) (\<lambda>header.
     bind_err (readBigUIntBE buf (int (length buf) - 4)) (\<lambda>midNum.
       (let mid = int_to_string midNum in
        if header = 204 \<or> header = 203 then parseHeartbeat buf res mid
        else if header = 186 then parseDoorState buf res mid
        else if header = 187 then parseRfidEvent buf res mid
        else if header = 170 then parseAAResponse buf res mid
        else if header = 239 then
          (if length buf \<ge> 2
           then bind_err (readUInt8 buf 1) (\<lambda>subHeader.
                  if subHeader = 1 then parseDeviceInfoResponse buf res mid
                  else if subHeader = 2 then parseModuleInfoResponse buf res mid
                  else Inr None)
           else Inr None)
        else Inr None)))"

text \<open>
  \<open>V5008Parser.parse\<close>. The third argument is the clock reading
  \<open>new Date().toISOString()\<close>. Every exception is caught and gives \<open>null\<close>.
\<close>

definition blank_message :: parsed_data where
  "blank_message =
     \<lparr>topic = [], message = None, deviceType = None, deviceId = None, messageType = None,
      ts = [], messageId = None, modAddr = None, modId = None, uTotal = None,
      onlineCount = None, items = None, sensors = None, modules = None, meta = None,
      doorState = None, result = None, originalReq = None, colorMap = None, data = None,
      device = None, model = None, fwVer = None, ip = None, mask = None, gatewayIp = None,
      mac = None\<rparr>"

text \<open>
  The message type chosen in \<open>parse\<close>: the \<open>switch\<close> on the leading byte, with the
  topic suffix as the fallback for an empty buffer or any other leading byte.
\<close>

definition headerType :: "buffer \<Rightarrow> string option \<Rightarrow> string option" where
  "headerType buf topicSuffix =
     (case buf of
        [] \<Rightarrow> topicSuffix
      | h # rest \<Rightarrow>
          if h = 0xCC \<or> h = 0xCB then Some ''HEARTBEAT''
          else if h = 0xBB then Some ''LABEL_STATE''
          else if h = 0xBA then Some ''DOOR_STATE''
          else if h = 0xAA then Some ''OPE_ACK''
          else topicSuffix)"

definition V5008_parse :: "string \<Rightarrow> buffer \<Rightarrow> string \<Rightarrow> parsed_data option" where
  "V5008_parse tpc buf now =
     (let topicParts = split_str CHR ''/'' tpc;
          devId = index_opt topicParts 1;
          topicSuffix = index_opt topicParts 2;
          mType = headerType buf topicSuffix;
          res = blank_message\<lparr>topic := tpc, message := Some (toHexUpper buf),
                               deviceType := Some ''V5008'', deviceId := devId,
                               messageType := mType, ts := now\<rparr>;
          r = (if mType = Some ''HEARTBEAT'' then parseOpeAck buf res
               else if mType = Some ''LABEL_STATE'' then parseLabelState buf res
               else if mType = Some ''DOOR_STATE'' then parseOpeAck buf res
               else if mType = Some ''OPE_ACK'' then parseOpeAck buf res
               else if mType = Some ''TemHum'' then parseTemHum buf res
               else if mType = Some ''Noise'' then parseNoise buf res
               else Inr None)
      in case r of Inl e \<Rightarrow> None | Inr v \<Rightarrow> v)"

section \<open>V6800Parser: RFID action inference\<close>

text \<open>
  A value produced by \<open>JSON.parse\<close>. An object is the list of its properties
  (one entry per name); a missing property reads as \<open>undefined\<close>, which is
  \<open>None\<close> below.
\<close>

datatype json =
  JsNull | JsBool bool | JsNumber rat | JsString string
  | JsArray "json list" | JsObject "(string \<times> json) list"

text \<open>
  Property access \<open>v.name\<close> for the names the parser reads (none of them is
  \<open>length\<close>): a \<open>TypeError\<close> on \<open>null\<close>, the property of an object, and
  \<open>undefined\<close> on every other value.
\<close>

definition get_prop :: "json \<Rightarrow> string \<Rightarrow> error + json option" where
  "get_prop v name =
     (case v of
        JsNull \<Rightarrow> Inl TypeError
      | JsObject props \<Rightarrow> Inr (map_of props name)
      | _ \<Rightarrow> Inr None)"

definition truthy :: "json option \<Rightarrow> bool" where
  "truthy v =
     (case v of
        None \<Rightarrow> False
      | Some JsNull \<Rightarrow> False
      | Some (JsBool b) \<Rightarrow> b
      | Some (JsNumber n) \<Rightarrow> n \<noteq> 0
      | Some (JsString s) \<Rightarrow> s \<noteq> []
      | Some _ \<Rightarrow> True)"

text \<open>\<open>a || b\<close> on property reads.\<close>

definition js_or :: "json option \<Rightarrow> json option \<Rightarrow> json option" where
  "js_or a b = (if truthy a then a else b)"

text \<open>
  The decoded tag item and module block. \<open>v6_modId_src\<close> is the value whose
  \<open>toString()\<close> is stored as \<open>modId\<close>; the rendering itself is not modelled.
\<close>

record v6800_item =
  v6_uPos :: "json option"
  v6_alarmStatus :: "json option"
  v6_tagId :: "json option"
  v6_action :: "string option"

record v6800_module =
  v6_modAddr :: "json option"
  v6_modId_src :: "json option"
  v6_items :: "v6800_item list"

text \<open>The action computed for one tag record, from the two state flags read off it.\<close>

definition inferAction :: "json option \<Rightarrow> json option \<Rightarrow> string option" where
  "inferAction new_state old_state =
     (if new_state \<noteq> None \<and> old_state \<noteq> None
      then (if new_state = Some (JsNumber 1) \<and> old_state = Some (JsNumber 0) then Some ''attached''
            else if new_state = Some (JsNumber 0) \<and> old_state = Some (JsNumber 1) then Some ''detached''
            else None)
      else None)"

text \<open>The body of \<open>for (const tagData of uData)\<close>.\<close>

definition parseTag :: "json \<Rightarrow> error + v6800_item" where
  "parseTag tagData =
     bind_err (get_prop tagData ''new_state'') (\<lambda>ns.
     bind_err (get_prop tagData ''old_state'') (\<lambda>os.
     bind_err (get_prop tagData ''u_index'') (\<lambda>ui.
     bind_err (get_prop tagData ''warning'') (\<lambda>w.
     bind_err (get_prop tagData ''tag_code'') (\<lambda>tc.
       Inr \<lparr>v6_uPos = ui, v6_alarmStatus = js_or w (Some (JsNumber 0)),
            v6_tagId = js_or (js_or tc tc) (Some JsNull),
            v6_action = inferAction ns os\<rparr>)))))"

fun parseTags :: "json list \<Rightarrow> v6800_item list \<Rightarrow> error + v6800_item list" where
  "parseTags [] its = Inr its"
| "parseTags (td # tds) its = bind_err (parseTag td) (\<lambda>it. parseTags tds (its @ [it]))"

text \<open>The body of \<open>for (const moduleData of rawJson.data)\<close>.\<close>

definition parseModuleBlock :: "json \<Rightarrow> error + v6800_module" where
  "parseModuleBlock moduleData =
     bind_err (get_prop moduleData ''u_data'') (\<lambda>uData.
     bind_err (case uData of Some (JsArray tds) \<Rightarrow> parseTags tds [] | _ \<Rightarrow> Inr []) (\<lambda>its.
     bind_err (get_prop moduleData ''host_gateway_port_index'') (\<lambda>hg.
     bind_err (get_prop moduleData ''index'') (\<lambda>ix.
     bind_err (get_prop moduleData ''extend_module_sn'') (\<lambda>sn.
     bind_err (get_prop moduleData ''module_id'') (\<lambda>mi.
       Inr \<lparr>v6_modAddr = js_or hg ix,
            v6_modId_src = js_or (js_or sn mi) (Some (JsString [])),
            v6_items = its\<rparr>))))))"

fun parseModuleBlocks :: "json list \<Rightarrow> v6800_module list \<Rightarrow> error + v6800_module list" where
  "parseModuleBlocks [] acc = Inr acc"
| "parseModuleBlocks (md # mds) acc =
     bind_err (parseModuleBlock md) (\<lambda>m. parseModuleBlocks mds (acc @ [m]))"

text \<open>
  \<open>V6800Parser.parseLabelState\<close>: the array it stores in \<open>result.data\<close> (the other
  fields of \<open>result\<close> are not touched).
\<close>

definition V6800_parseLabelState :: "json \<Rightarrow> error + v6800_module list" where
  "V6800_parseLabelState rawJson =
     bind_err (get_prop rawJson ''data'') (\<lambda>d.
       case d of Some (JsArray mds) \<Rightarrow> parseModuleBlocks mds [] | _ \<Rightarrow> Inr [])"

section \<open>Observations on event lists\<close>

text \<open>
  The positions (\<open>identity.sensorAddr\<close>) of the \<open>SYS_RFID_EVENT\<close> events of a
  result that carry a given action, in the order of the result.
\<close>

definition rfid_positions :: "string \<Rightarrow> event list \<Rightarrow> nat list" where
  "rfid_positions act evs =
     map (\<lambda>e. id_sensorAddr (ev_identity e))
       (filter (\<lambda>e. ev_type e = SYS_RFID_EVENT
                   \<and> (case ev_value e of RfidValue a tid u al \<Rightarrow> a = Some act | _ \<Rightarrow> False)) evs)"

text \<open>Every stored shadow has one entry per position, as a \<open>Map\<close> has.\<close>

definition shadows_wf :: "state_cache \<Rightarrow> bool" where
  "shadows_wf cache = (\<forall>k m. cache k = Some m \<longrightarrow> distinct (map fst m))"

text \<open>
  The four bytes at the offsets \<open>i\<close> to \<open>i + 3\<close> read as a big-endian unsigned
  32-bit integer, as the specification words the message id.
\<close>

definition be_uint32 :: "buffer \<Rightarrow> nat \<Rightarrow> nat" where
  "be_uint32 buf i =
     ((unat (buf ! i) * 256 + unat (buf ! (i + 1))) * 256 + unat (buf ! (i + 2))) * 256
       + unat (buf ! (i + 3))"

text \<open>The bytes of a buffer at the offsets \<open>from \<le> i < to\<close>.\<close>

definition bytes_between :: "buffer \<Rightarrow> nat \<Rightarrow> nat \<Rightarrow> buffer" where
  "bytes_between buf from to = take (to - from) (drop from buf)"

section \<open>Frames and messages of the repository's tests\<close>

text \<open>
  The binary frames of the parser tests: the heartbeat frame of scenario A, the
  RFID frame, the temperature and humidity frame and the colour-query response.
\<close>

definition heartbeat_frame :: buffer where
  "heartbeat_frame =
     [0xCC, 0x01, 0xEC, 0x37, 0x37, 0xBF, 0x06, 0x02, 0x8C, 0x09, 0x09, 0x95, 0x0C,
      0x03, 0x00, 0x00, 0x00, 0x00, 0x00, 0x04, 0x00, 0x00, 0x00, 0x00, 0x00, 0x05,
      0x00, 0x00, 0x00, 0x00, 0x00, 0x06, 0x00, 0x00, 0x00, 0x00, 0x00, 0x07, 0x00,
      0x00, 0x00, 0x00, 0x00, 0x08, 0x00, 0x00, 0x00, 0x00, 0x00, 0x09, 0x00, 0x00,
      0x00, 0x00, 0x00, 0x0A, 0x00, 0x00, 0x00, 0x00, 0x00, 0xF2, 0x00, 0x16, 0x8F]"

definition labelState_frame :: buffer where
  "labelState_frame =
     [0xBB, 0x02, 0x8C, 0x09, 0x09, 0x95, 0x00, 0x0C, 0x03, 0x0A, 0x00, 0xDD, 0x34,
      0x4A, 0x44, 0x0B, 0x00, 0xDD, 0x28, 0x62, 0xB4, 0x0C, 0x00, 0xDD, 0x3C, 0xE9,
      0xC4, 0x05, 0x00, 0x07, 0xAD]"

definition temHum_frame :: buffer where
  "temHum_frame =
     [0x01, 0xEC, 0x37, 0x37, 0xBF, 0x0A, 0x1C, 0x30, 0x33, 0x1B, 0x0B, 0x1C, 0x08,
      0x33, 0x0B, 0x0C, 0x00, 0x00, 0x00, 0x00, 0x0D, 0x00, 0x00, 0x00, 0x00, 0x0E,
      0x00, 0x00, 0x00, 0x00, 0x0F, 0x00, 0x00, 0x00, 0x00, 0x01, 0x01, 0x2C, 0xC3]"

definition colorQuery_frame :: buffer where
  "colorQuery_frame =
     [0xAA, 0x91, 0x4E, 0xF6, 0x65, 0xA1, 0xE4, 0x01, 0x00, 0x00, 0x00, 0x0D, 0x0D,
      0x08, 0x25, 0x01, 0x5D, 0x4C]"

text \<open>The JSON document of scenario B (one module block, two tag records).\<close>

definition scenarioB_json :: json where
  "scenarioB_json =
     JsObject
       [(''msg_type'', JsString ''u_state_changed_notify_req''),
        (''gateway_sn'', JsString ''2123456789''),
        (''uuid_number'', JsNumber 727046823),
        (''data'', JsArray
           [JsObject
              [(''host_gateway_port_index'', JsNumber 2),
               (''extend_module_sn'', JsString ''3963041727''),
               (''u_data'', JsArray
                  [JsObject [(''u_index'', JsNumber 3), (''new_state'', JsNumber 1),
                             (''old_state'', JsNumber 0), (''tag_code'', JsString ''DD23B0B4''),
                             (''warning'', JsNumber 0)],
                   JsObject [(''u_index'', JsNumber 1), (''new_state'', JsNumber 0),
                             (''old_state'', JsNumber 1), (''tag_code'', JsString ''DD395064''),
                             (''warning'', JsNumber 0)]])]])]"

text \<open>
  A full tag list for module 2 of device \<open>2437871205\<close> with tags at positions 11
  and 12, and a shadow store that holds positions 10 and 11 for that module.
\<close>

definition example_label_state :: parsed_data where
  "example_label_state =
     blank_message\<lparr>deviceType := Some ''V5008'', deviceId := Some ''2437871205'',
       messageType := Some ''LabelState'', ts := ''2025-01-01T10:01:00.000Z'',
       modAddr := Some 2, modId := Some ''2349402517'',
       items := Some [\<lparr>uPos = 11, alarmStatus = 0, tagId = ''DD2862B4'', action = None\<rparr>,
                      \<lparr>uPos = 12, alarmStatus = 0, tagId = ''DD3CE9C4'', action = None\<rparr>]\<rparr>"

definition example_cache :: state_cache where
  "example_cache =
     Map.empty(''2437871205:2'' \<mapsto>
       [(10, \<lparr>td_tagId = ''DD344A44'', td_alarmStatus = 0\<rparr>),
        (11, \<lparr>td_tagId = ''DD2862B4'', td_alarmStatus = 0\<rparr>)])"

text \<open>A V6800 RFID message with one module block of two tag items.\<close>

definition example_block :: module_block where
  "example_block =
     \<lparr>mb_modAddr = Some 2, mb_modId = Some ''3963041727'',
      mb_items = Some [\<lparr>uPos = 3, alarmStatus = 0, tagId = ''DD23B0B4'', action = Some ''attached''\<rparr>,
                       \<lparr>uPos = 1, alarmStatus = 0, tagId = ''DD395064'', action = Some ''detached''\<rparr>]\<rparr>"

definition example_patch_message :: parsed_data where
  "example_patch_message =
     blank_message\<lparr>deviceType := Some ''V6800'', deviceId := Some ''2123456789'',
       messageType := Some ''LABEL_STATE'', ts := ''2025-01-01T10:00:00.000Z'',
       data := Some [example_block]\<rparr>"

text \<open>A V5008 RFID message whose \<open>items\<close> field is missing.\<close>

definition label_state_without_items :: parsed_data where
  "label_state_without_items =
     blank_message\<lparr>deviceType := Some ''V5008'', deviceId := Some ''2437871205'',
       messageType := Some ''LabelState'', ts := ''2025-01-01T10:00:00.000Z'',
       modAddr := Some 2\<rparr>"

section \<open>Properties\<close>

subsection \<open>Exceptions, bytes and decimal rendering\<close>

lemma bind_err_Inr_iff: "bind_err m f = Inr y \<longleftrightarrow> (\<exists>x. m = Inr x \<and> f x = Inr y)"
  by (cases m) auto

lemma bind_err_weak_cong: "m = m' \<Longrightarrow> bind_err m f = bind_err m' f"
  by simp

lemma readUInt8_0: "buf \<noteq> [] \<Longrightarrow> readUInt8 buf 0 = Inr (unat (hd buf))"
  by (cases buf) (simp_all add: readUInt8_def)

lemma readUInt8_Inr: "readUInt8 buf offset = Inr v \<Longrightarrow>
    0 \<le> offset \<and> nat offset < length buf \<and> v = unat (buf ! nat offset)"
  by (auto simp: readUInt8_def split: if_splits)

lemma digit_char_values:
  "digit_char 0 = CHR ''0''" "digit_char 1 = CHR ''1''" "digit_char 2 = CHR ''2''"
  "digit_char 3 = CHR ''3''" "digit_char 4 = CHR ''4''" "digit_char 5 = CHR ''5''"
  "digit_char 6 = CHR ''6''" "digit_char 7 = CHR ''7''" "digit_char 8 = CHR ''8''"
  "digit_char 9 = CHR ''9''" "digit_char (Suc 0) = CHR ''1''"
  by code_simp+

lemmas decimal_eval = int_to_string_def nat_to_string.simps digit_char_values

subsection \<open>The tag map\<close>

lemma keys_Map_set: "fst ` set (Map_set k v m) = insert k (fst ` set m)"
  by (induction m) auto

lemma distinct_Map_set: "distinct (map fst m) \<Longrightarrow> distinct (map fst (Map_set k v m))"
  by (induction m) (auto simp: keys_Map_set)

lemma keys_buildCurrTags: "fst ` set (buildCurrTags its m) = uPos ` set its \<union> fst ` set m"
  by (induction its arbitrary: m) (auto simp: keys_Map_set)

lemma distinct_buildCurrTags: "distinct (map fst m) \<Longrightarrow> distinct (map fst (buildCurrTags its m))"
  by (induction its arbitrary: m) (auto simp: distinct_Map_set)

text \<open>Every operation of the normalizer keeps the keys of each stored shadow distinct.\<close>

lemma distinct_Map_delete: "distinct (map fst m) \<Longrightarrow> distinct (map fst (Map_delete k m))"
  by (simp add: Map_delete_def distinct_map_filter)

lemma distinct_patchItems:
  "distinct (map fst shadow) \<Longrightarrow> distinct (map fst (fst (patchItems ident modA t its shadow results)))"
  by (induction its arbitrary: shadow results)
     (simp_all add: Let_def distinct_Map_set distinct_Map_delete)

lemma distinct_patchItems':
  "patchItems ident modA t its shadow results = (shadow', results') \<Longrightarrow>
     distinct (map fst shadow) \<Longrightarrow> distinct (map fst shadow')"
  using distinct_patchItems [of shadow ident modA t its results] by simp

lemma processV5008Rfid_wf:
  "shadows_wf cache \<Longrightarrow> shadows_wf (snd (processV5008Rfid pd ident cache))"
  using distinct_buildCurrTags [of "[]"]
  by (auto simp: processV5008Rfid_def shadows_wf_def stateCache_set_def Let_def split: option.splits)

lemma processV6800Module_wf:
  "shadows_wf cache \<Longrightarrow> shadows_wf (snd (processV6800Module ident t md results cache))"
  by (auto simp: processV6800Module_def shadows_wf_def stateCache_set_def stateCache_get_def Let_def
        split: option.splits prod.splits dest: distinct_patchItems')

lemma processV6800Modules_wf:
  "shadows_wf cache \<Longrightarrow> shadows_wf (snd (processV6800Modules ident t mds results cache))"
proof (induction mds arbitrary: results cache)
  case Nil
  then show ?case by simp
next
  case (Cons md mds)
  from processV6800Module_wf [OF Cons.prems, of ident t md results]
  show ?case
    by (cases "processV6800Module ident t md results cache")
       (auto split: sum.splits intro: Cons.IH)
qed

lemma normalize_wf:
  "shadows_wf cache \<Longrightarrow> shadows_wf (snd (normalizeData parsedData cache))"
  by (auto simp: normalizeData_def processV5008_def processV6800_def processV6800Rfid_def Let_def
        split: option.splits intro: processV5008Rfid_wf processV6800Modules_wf)

subsection \<open>Events of the diff and patch paths\<close>

lemma rfid_positions_append: "rfid_positions a (xs @ ys) = rfid_positions a xs @ rfid_positions a ys"
  by (simp add: rfid_positions_def)

lemma rfid_positions_diff_same:
  "rfid_positions a (map (diff_event ident modA t a) es) = map fst es"
  by (induction es) (simp_all add: rfid_positions_def diff_event_def rfid_event_def spread_def)

lemma rfid_positions_diff_other:
  "a \<noteq> b \<Longrightarrow> rfid_positions a (map (diff_event ident modA t b) es) = []"
  by (induction es) (simp_all add: rfid_positions_def diff_event_def rfid_event_def spread_def)

lemma rfid_positions_snapshot: "rfid_positions a [snapshot_event ident modA t mid m] = []"
  by (simp add: rfid_positions_def snapshot_event_def)

lemma normalize_V5008_LabelState:
  assumes "deviceType pd = Some ''V5008''" "messageType pd = Some ''LabelState''"
  shows "normalizeData (Some pd) cache = processV5008Rfid pd (deviceId pd, ''V5008'') cache"
  using assms by (simp add: normalizeData_def processV5008_def truthy_str_def)

lemma rfid_filter_diff:
  "filter (\<lambda>e. ev_type e = SYS_RFID_EVENT) (map (diff_event ident modA t a) es) = map (diff_event ident modA t a) es"
  by (induction es) (simp_all add: diff_event_def rfid_event_def)

lemma rfid_filter_passthrough:
  "filter (\<lambda>e. ev_type e = SYS_RFID_EVENT) (map (passthrough_event ident modA t) its) = map (passthrough_event ident modA t) its"
  by (induction its) (simp_all add: passthrough_event_def rfid_event_def)

lemma sensorAddr_diff_event: "id_sensorAddr (ev_identity (diff_event ident modA t a e)) = fst e"
  by (simp add: diff_event_def rfid_event_def spread_def)

lemma distinct_diff_positions:
  assumes "distinct (map fst prevT)" and "distinct (map fst currT)"
  shows "distinct (map fst (filter (\<lambda>e. \<not> Map_has currT (fst e)) prevT)
                   @ map fst (filter (\<lambda>e. \<not> Map_has prevT (fst e)) currT))"
  using assms by (auto simp: distinct_map_filter Map_has_def)

lemma no_diff_on_same:
  "filter (\<lambda>e. \<not> Map_has m (fst e)) m = []"
  by (auto simp: Map_has_def filter_empty_conv)

lemma example_label_state_fields:
  "deviceType example_label_state = Some ''V5008''"
  "messageType example_label_state = Some ''LabelState''"
  "deviceId example_label_state = Some ''2437871205''"
  "modAddr example_label_state = Some 2"
  "modId example_label_state = Some ''2349402517''"
  "ts example_label_state = ''2025-01-01T10:01:00.000Z''"
  "items example_label_state =
     Some [\<lparr>uPos = 11, alarmStatus = 0, tagId = ''DD2862B4'', action = None\<rparr>,
           \<lparr>uPos = 12, alarmStatus = 0, tagId = ''DD3CE9C4'', action = None\<rparr>]"
  by (simp_all add: example_label_state_def blank_message_def)

lemma example_key: "createKey (Some ''2437871205'') (Some 2) = ''2437871205:2''"
  by (simp add: createKey_def str_of_opt_def num_of_opt_def decimal_eval)

lemma example_cache_get:
  "stateCache_get example_cache (Some ''2437871205'') (Some 2) =
     Some [(10, \<lparr>td_tagId = ''DD344A44'', td_alarmStatus = 0\<rparr>),
           (11, \<lparr>td_tagId = ''DD2862B4'', td_alarmStatus = 0\<rparr>)]"
  by (simp add: stateCache_get_def example_key example_cache_def)

lemma example_patch_message_fields:
  "deviceType example_patch_message = Some ''V6800''"
  "messageType example_patch_message = Some ''LABEL_STATE''"
  "data example_patch_message = Some [example_block]"
  "deviceId example_patch_message = Some ''2123456789''"
  "ts example_patch_message = ''2025-01-01T10:00:00.000Z''"
  by (simp_all add: example_patch_message_def blank_message_def)

lemma example_block_fields:
  "mb_items example_block =
     Some [\<lparr>uPos = 3, alarmStatus = 0, tagId = ''DD23B0B4'', action = Some ''attached''\<rparr>,
           \<lparr>uPos = 1, alarmStatus = 0, tagId = ''DD395064'', action = Some ''detached''\<rparr>]"
  "mb_modAddr example_block = Some 2"
  by (simp_all add: example_block_def)

subsection \<open>The diff path\<close>

text \<open>
  Claim C1. On the diff path of \<open>normalize\<close> (a V5008 message of type \<open>LabelState\<close>
  with a tag list), with \<open>prevT\<close> the stored shadow of \<open>(deviceId, modAddr)\<close> (empty
  when there is none) and \<open>currT\<close> the map built from the inbound tag list: the
  \<open>SYS_RFID_EVENT\<close> events are one \<open>detached\<close> event for each entry of \<open>prevT\<close>
  whose position is not in \<open>currT\<close>, followed by one \<open>attached\<close> event for each
  entry of \<open>currT\<close> whose position is not in \<open>prevT\<close>; no position occurs twice
  among them; the detached positions are exactly the keys of \<open>prevT\<close> outside
  \<open>currT\<close> and the attached positions exactly the keys of \<open>currT\<close> outside
  \<open>prevT\<close>, so a position in both gets no event; and the store afterwards holds
  \<open>currT\<close> under the module's key, whatever it held before. The keys of a
  JavaScript \<open>Map\<close> are distinct, which is the hypothesis on \<open>prevT\<close>.
\<close>

theorem diff_path_complete:
  assumes "deviceType pd = Some ''V5008''" and "messageType pd = Some ''LabelState''"
    and "items pd = Some its"
    and "prevT = (case stateCache_get cache (deviceId pd) (modAddr pd) of None \<Rightarrow> [] | Some m \<Rightarrow> m)"
    and "distinct (map fst prevT)"
    and "currT = buildCurrTags its []"
    and "ident = (deviceId pd, ''V5008'')"
  shows "\<exists>evs. normalizeData (Some pd) cache
                 = (Inr evs, cache(createKey (deviceId pd) (modAddr pd) \<mapsto> currT))
     \<and> filter (\<lambda>e. ev_type e = SYS_RFID_EVENT) evs
         = map (diff_event ident (modAddr pd) (ts pd) ''detached'')
               (filter (\<lambda>e. fst e \<notin> fst ` set currT) prevT)
           @ map (diff_event ident (modAddr pd) (ts pd) ''attached'')
               (filter (\<lambda>e. fst e \<notin> fst ` set prevT) currT)
     \<and> distinct (map (\<lambda>e. id_sensorAddr (ev_identity e))
                    (filter (\<lambda>e. ev_type e = SYS_RFID_EVENT) evs))
     \<and> set (rfid_positions ''detached'' evs) = fst ` set prevT - fst ` set currT
     \<and> set (rfid_positions ''attached'' evs) = fst ` set currT - fst ` set prevT
     \<and> fst ` set currT = uPos ` set its"
proof -
  let ?D = "filter (\<lambda>e. \<not> Map_has currT (fst e)) prevT"
  let ?A = "filter (\<lambda>e. \<not> Map_has prevT (fst e)) currT"
  let ?evs = "map (diff_event ident (modAddr pd) (ts pd) ''detached'') ?D
              @ map (diff_event ident (modAddr pd) (ts pd) ''attached'') ?A
              @ [snapshot_event ident (modAddr pd) (ts pd) (modId pd) currT]"
  have run: "normalizeData (Some pd) cache
               = (Inr ?evs, cache(createKey (deviceId pd) (modAddr pd) \<mapsto> currT))"
    using assms(1-4,6,7)
    by (simp add: normalize_V5008_LabelState processV5008Rfid_def Let_def stateCache_set_def)
  have dc: "distinct (map fst currT)"
    using assms(6) distinct_buildCurrTags [of "[]" its] by simp
  have filt: "filter (\<lambda>e. ev_type e = SYS_RFID_EVENT) ?evs
         = map (diff_event ident (modAddr pd) (ts pd) ''detached'') ?D
           @ map (diff_event ident (modAddr pd) (ts pd) ''attached'') ?A"
    by (simp add: rfid_filter_diff snapshot_event_def)
  have dist: "distinct (map (\<lambda>e. id_sensorAddr (ev_identity e))
                    (filter (\<lambda>e. ev_type e = SYS_RFID_EVENT) ?evs))"
    unfolding filt using distinct_diff_positions [OF assms(5) dc]
    by (simp add: o_def sensorAddr_diff_event)
  have det: "set (rfid_positions ''detached'' ?evs) = fst ` set prevT - fst ` set currT"
    by (auto simp: rfid_positions_append rfid_positions_diff_same rfid_positions_diff_other
          rfid_positions_snapshot Map_has_def)
  have att: "set (rfid_positions ''attached'' ?evs) = fst ` set currT - fst ` set prevT"
    by (auto simp: rfid_positions_append rfid_positions_diff_same rfid_positions_diff_other
          rfid_positions_snapshot Map_has_def)
  have keys: "fst ` set currT = uPos ` set its"
    using assms(6) keys_buildCurrTags [of its "[]"] by simp
  from run filt dist det att keys show ?thesis
    by (simp add: Map_has_def)
qed

text \<open>
  The theorem at the example message and store: position 10 is detached,
  position 12 attached, position 11 (in both) gets no event.
\<close>

theorem diff_path_complete_witness:
  "\<exists>evs. normalizeData (Some example_label_state) example_cache
            = (Inr evs, example_cache(''2437871205:2'' \<mapsto>
                 [(11, \<lparr>td_tagId = ''DD2862B4'', td_alarmStatus = 0\<rparr>),
                  (12, \<lparr>td_tagId = ''DD3CE9C4'', td_alarmStatus = 0\<rparr>)]))
     \<and> filter (\<lambda>e. ev_type e = SYS_RFID_EVENT) evs
         = [diff_event (Some ''2437871205'', ''V5008'') (Some 2)
              ''2025-01-01T10:01:00.000Z'' ''detached''
              (10, \<lparr>td_tagId = ''DD344A44'', td_alarmStatus = 0\<rparr>),
            diff_event (Some ''2437871205'', ''V5008'') (Some 2)
              ''2025-01-01T10:01:00.000Z'' ''attached''
              (12, \<lparr>td_tagId = ''DD3CE9C4'', td_alarmStatus = 0\<rparr>)]
     \<and> distinct (map (\<lambda>e. id_sensorAddr (ev_identity e))
                    (filter (\<lambda>e. ev_type e = SYS_RFID_EVENT) evs))
     \<and> set (rfid_positions ''detached'' evs) = {10}
     \<and> set (rfid_positions ''attached'' evs) = {12}"
proof -
  let ?prev = "[(10, \<lparr>td_tagId = ''DD344A44'', td_alarmStatus = 0\<rparr>),
                (11 :: nat, \<lparr>td_tagId = ''DD2862B4'', td_alarmStatus = 0\<rparr>)]"
  have h4: "?prev = (case stateCache_get example_cache (deviceId example_label_state)
                        (modAddr example_label_state) of None \<Rightarrow> [] | Some m \<Rightarrow> m)"
    by (simp add: example_label_state_fields example_cache_get)
  have h5: "distinct (map fst ?prev)"
    by simp
  have s: "{10, 11} - {11, 12} = {10 :: nat}"
    by auto
  from diff_path_complete [OF example_label_state_fields(1,2,7) h4 h5 refl refl]
  show ?thesis
    by (simp add: example_label_state_fields example_key tag_of_item_def s)
qed

text \<open>
  Claim C3. After a V5008 full tag list has been normalized, normalizing a
  message with the same tag list for the same \<open>(deviceId, modAddr)\<close> again gives
  no \<open>SYS_RFID_EVENT\<close> at all: the result is the single trailing
  \<open>SYS_RFID_SNAPSHOT\<close>, and the store does not change. The second message may
  differ in its timestamp.
\<close>

theorem diff_path_idempotent:
  assumes "deviceType pd = Some ''V5008''" and "messageType pd = Some ''LabelState''"
    and "items pd = Some its"
    and "deviceType pd2 = Some ''V5008''" and "messageType pd2 = Some ''LabelState''"
    and "items pd2 = Some its"
    and "deviceId pd2 = deviceId pd" and "modAddr pd2 = modAddr pd"
  shows "normalizeData (Some pd2) (snd (normalizeData (Some pd) cache))
           = (Inr [snapshot_event (deviceId pd2, ''V5008'') (modAddr pd2) (ts pd2) (modId pd2)
                     (buildCurrTags its [])],
              snd (normalizeData (Some pd) cache))"
  using assms
  by (simp add: normalize_V5008_LabelState processV5008Rfid_def Let_def stateCache_set_def
        stateCache_get_def no_diff_on_same)

text \<open>The theorem at the example message, sent twice.\<close>

theorem diff_path_idempotent_witness:
  "normalizeData (Some example_label_state)
       (snd (normalizeData (Some example_label_state) example_cache))
     = (Inr [snapshot_event (Some ''2437871205'', ''V5008'') (Some 2) ''2025-01-01T10:01:00.000Z''
               (Some ''2349402517'')
               [(11, \<lparr>td_tagId = ''DD2862B4'', td_alarmStatus = 0\<rparr>),
                (12, \<lparr>td_tagId = ''DD3CE9C4'', td_alarmStatus = 0\<rparr>)]],
        snd (normalizeData (Some example_label_state) example_cache))"
  using diff_path_idempotent [OF example_label_state_fields(1,2,7) example_label_state_fields(1,2,7) refl refl,
      of example_cache]
  by (simp add: example_label_state_fields tag_of_item_def)

subsection \<open>The patch path on a cache miss\<close>

text \<open>The loop body on a cache miss, for a module block at any place of the message.\<close>

lemma processV6800Module_miss:
  assumes "stateCache_get cache (fst ident) (mb_modAddr md) = None" and "mb_items md = Some its"
  shows "processV6800Module ident t md results cache
           = (Inr (results @ map (passthrough_event ident (mb_modAddr md) t) its
                     @ [require_sync_event ident (mb_modAddr md) t]), cache)"
  using assms by (simp add: processV6800Module_def)

text \<open>
  Claim C2. A V6800 \<open>LABEL_STATE\<close> message with one module block of \<open>N\<close> tag
  items, normalized when the store has no shadow for \<open>(deviceId, modAddr)\<close>,
  gives exactly \<open>N + 1\<close> events. The first \<open>N\<close> are the pass-through events, one
  per item in the order of the block: type \<open>SYS_RFID_EVENT\<close>, key \<open>rfid_event\<close>,
  the item's own action, tag id, position and alarm status as the value, and
  the identity of the device and module with the item's position as sensor
  address. The last is one \<open>SYS_REQUIRE_SYNC\<close> with key \<open>require_sync\<close> and
  reason \<open>cache_miss\<close> for that module (sensor address 0). All carry the
  timestamp of the message. There is no \<open>SYS_RFID_SNAPSHOT\<close>, and the store is
  left as it was, so the entry is still absent.
\<close>

theorem cache_miss_gating:
  assumes "deviceType pd = Some ''V6800''" and "messageType pd = Some ''LABEL_STATE''"
    and "data pd = Some [md]" and "mb_items md = Some its"
    and "stateCache_get cache (deviceId pd) (mb_modAddr md) = None"
    and "ident = (deviceId pd, ''V6800'')"
  shows "\<exists>evs. normalizeData (Some pd) cache = (Inr evs, cache)
     \<and> evs = map (passthrough_event ident (mb_modAddr md) (ts pd)) its
             @ [require_sync_event ident (mb_modAddr md) (ts pd)]
     \<and> evs = map (\<lambda>it.
                 \<lparr>ev_identity = \<lparr>id_deviceId = deviceId pd, id_deviceType = ''V6800'',
                                  id_modAddr = mb_modAddr md, id_sensorAddr = uPos it\<rparr>,
                  ev_type = SYS_RFID_EVENT, ev_ts = ts pd, ev_key = ''rfid_event'',
                  ev_value = RfidValue (action it) (tagId it) (uPos it) (alarmStatus it),
                  ev_raw = NoRaw\<rparr>) its
             @ [\<lparr>ev_identity = \<lparr>id_deviceId = deviceId pd, id_deviceType = ''V6800'',
                                  id_modAddr = mb_modAddr md, id_sensorAddr = 0\<rparr>,
                 ev_type = SYS_REQUIRE_SYNC, ev_ts = ts pd, ev_key = ''require_sync'',
                 ev_value = ReasonValue ''cache_miss'', ev_raw = NoRaw\<rparr>]
     \<and> length (filter (\<lambda>e. ev_type e = SYS_RFID_EVENT) evs) = length its
     \<and> filter (\<lambda>e. ev_type e = SYS_REQUIRE_SYNC) evs
         = [require_sync_event ident (mb_modAddr md) (ts pd)]
     \<and> filter (\<lambda>e. ev_type e = SYS_REQUIRE_SYNC) evs
         = [\<lparr>ev_identity = \<lparr>id_deviceId = deviceId pd, id_deviceType = ''V6800'',
                              id_modAddr = mb_modAddr md, id_sensorAddr = 0\<rparr>,
             ev_type = SYS_REQUIRE_SYNC, ev_ts = ts pd, ev_key = ''require_sync'',
             ev_value = ReasonValue ''cache_miss'', ev_raw = NoRaw\<rparr>]
     \<and> filter (\<lambda>e. ev_type e = SYS_RFID_SNAPSHOT) evs = []
     \<and> length evs = length its + 1
     \<and> stateCache_get (snd (normalizeData (Some pd) cache)) (deviceId pd) (mb_modAddr md) = None"
proof -
  let ?pass = "map (passthrough_event ident (mb_modAddr md) (ts pd)) its"
  let ?sync = "require_sync_event ident (mb_modAddr md) (ts pd)"
  have run: "normalizeData (Some pd) cache = (Inr (?pass @ [?sync]), cache)"
    using assms
    by (simp add: normalizeData_def processV6800_def truthy_str_def Let_def processV6800Rfid_def
          processV6800Module_def)
  have pass: "?pass = map (\<lambda>it.
                 \<lparr>ev_identity = \<lparr>id_deviceId = deviceId pd, id_deviceType = ''V6800'',
                                  id_modAddr = mb_modAddr md, id_sensorAddr = uPos it\<rparr>,
                  ev_type = SYS_RFID_EVENT, ev_ts = ts pd, ev_key = ''rfid_event'',
                  ev_value = RfidValue (action it) (tagId it) (uPos it) (alarmStatus it),
                  ev_raw = NoRaw\<rparr>) its"
    using assms(6) by (simp add: passthrough_event_def rfid_event_def spread_def)
  have sync: "?sync = \<lparr>ev_identity = \<lparr>id_deviceId = deviceId pd, id_deviceType = ''V6800'',
                              id_modAddr = mb_modAddr md, id_sensorAddr = 0\<rparr>,
             ev_type = SYS_REQUIRE_SYNC, ev_ts = ts pd, ev_key = ''require_sync'',
             ev_value = ReasonValue ''cache_miss'', ev_raw = NoRaw\<rparr>"
    using assms(6) by (simp add: require_sync_event_def spread_def)
  have f0: "filter (\<lambda>e. ev_type e = SYS_RFID_EVENT) ?pass = ?pass"
    by (rule rfid_filter_passthrough)
  have f1: "filter (\<lambda>e. ev_type e = SYS_REQUIRE_SYNC) ?pass = []"
    by (induction its) (simp_all add: passthrough_event_def rfid_event_def)
  have f2: "filter (\<lambda>e. ev_type e = SYS_RFID_SNAPSHOT) ?pass = []"
    by (induction its) (simp_all add: passthrough_event_def rfid_event_def)
  have t: "ev_type ?sync = SYS_REQUIRE_SYNC"
    by (simp add: require_sync_event_def)
  have c1: "length (filter (\<lambda>e. ev_type e = SYS_RFID_EVENT) (?pass @ [?sync])) = length its"
    by (simp add: f0 t)
  have c2: "filter (\<lambda>e. ev_type e = SYS_REQUIRE_SYNC) (?pass @ [?sync]) = [?sync]"
    by (simp add: f1 t)
  have c3: "filter (\<lambda>e. ev_type e = SYS_RFID_SNAPSHOT) (?pass @ [?sync]) = []"
    by (simp add: f2 t)
  have c4: "length (?pass @ [?sync]) = length its + 1"
    by simp
  have c5: "stateCache_get (snd (normalizeData (Some pd) cache)) (deviceId pd) (mb_modAddr md) = None"
    using assms(5) by (simp add: run)
  have e1: "?pass @ [?sync] = map (\<lambda>it.
                 \<lparr>ev_identity = \<lparr>id_deviceId = deviceId pd, id_deviceType = ''V6800'',
                                  id_modAddr = mb_modAddr md, id_sensorAddr = uPos it\<rparr>,
                  ev_type = SYS_RFID_EVENT, ev_ts = ts pd, ev_key = ''rfid_event'',
                  ev_value = RfidValue (action it) (tagId it) (uPos it) (alarmStatus it),
                  ev_raw = NoRaw\<rparr>) its
             @ [\<lparr>ev_identity = \<lparr>id_deviceId = deviceId pd, id_deviceType = ''V6800'',
                                  id_modAddr = mb_modAddr md, id_sensorAddr = 0\<rparr>,
                 ev_type = SYS_REQUIRE_SYNC, ev_ts = ts pd, ev_key = ''require_sync'',
                 ev_value = ReasonValue ''cache_miss'', ev_raw = NoRaw\<rparr>]"
    by (simp only: pass sync)
  have c2': "filter (\<lambda>e. ev_type e = SYS_REQUIRE_SYNC) (?pass @ [?sync])
         = [\<lparr>ev_identity = \<lparr>id_deviceId = deviceId pd, id_deviceType = ''V6800'',
                              id_modAddr = mb_modAddr md, id_sensorAddr = 0\<rparr>,
             ev_type = SYS_REQUIRE_SYNC, ev_ts = ts pd, ev_key = ''require_sync'',
             ev_value = ReasonValue ''cache_miss'', ev_raw = NoRaw\<rparr>]"
    using c2 unfolding sync .
  from run e1 c1 c2 c2' c3 c4 c5 show ?thesis
    by blast
qed

text \<open>The theorem at the example message with two tag items and an empty store.\<close>

theorem cache_miss_gating_witness:
  "normalizeData (Some example_patch_message) Map.empty
     = (Inr [\<lparr>ev_identity = \<lparr>id_deviceId = Some ''2123456789'', id_deviceType = ''V6800'',
                               id_modAddr = Some 2, id_sensorAddr = 3\<rparr>,
              ev_type = SYS_RFID_EVENT, ev_ts = ''2025-01-01T10:00:00.000Z'',
              ev_key = ''rfid_event'', ev_value = RfidValue (Some ''attached'') ''DD23B0B4'' 3 0,
              ev_raw = NoRaw\<rparr>,
             \<lparr>ev_identity = \<lparr>id_deviceId = Some ''2123456789'', id_deviceType = ''V6800'',
                               id_modAddr = Some 2, id_sensorAddr = 1\<rparr>,
              ev_type = SYS_RFID_EVENT, ev_ts = ''2025-01-01T10:00:00.000Z'',
              ev_key = ''rfid_event'', ev_value = RfidValue (Some ''detached'') ''DD395064'' 1 0,
              ev_raw = NoRaw\<rparr>,
             \<lparr>ev_identity = \<lparr>id_deviceId = Some ''2123456789'', id_deviceType = ''V6800'',
                               id_modAddr = Some 2, id_sensorAddr = 0\<rparr>,
              ev_type = SYS_REQUIRE_SYNC, ev_ts = ''2025-01-01T10:00:00.000Z'',
              ev_key = ''require_sync'', ev_value = ReasonValue ''cache_miss'',
              ev_raw = NoRaw\<rparr>],
        Map.empty)"
proof -
  have miss: "stateCache_get Map.empty (deviceId example_patch_message) (mb_modAddr example_block) = None"
    by (simp add: stateCache_get_def)
  from cache_miss_gating [OF example_patch_message_fields(1,2,3) example_block_fields(1) miss refl]
  obtain evs where run: "normalizeData (Some example_patch_message) Map.empty = (Inr evs, Map.empty)"
    and lit: "evs = map (\<lambda>it.
                 \<lparr>ev_identity = \<lparr>id_deviceId = deviceId example_patch_message,
                                  id_deviceType = ''V6800'',
                                  id_modAddr = mb_modAddr example_block, id_sensorAddr = uPos it\<rparr>,
                  ev_type = SYS_RFID_EVENT, ev_ts = ts example_patch_message, ev_key = ''rfid_event'',
                  ev_value = RfidValue (action it) (tagId it) (uPos it) (alarmStatus it),
                  ev_raw = NoRaw\<rparr>)
               [\<lparr>uPos = 3, alarmStatus = 0, tagId = ''DD23B0B4'', action = Some ''attached''\<rparr>,
                \<lparr>uPos = 1, alarmStatus = 0, tagId = ''DD395064'', action = Some ''detached''\<rparr>]
             @ [\<lparr>ev_identity = \<lparr>id_deviceId = deviceId example_patch_message,
                                  id_deviceType = ''V6800'',
                                  id_modAddr = mb_modAddr example_block, id_sensorAddr = 0\<rparr>,
                 ev_type = SYS_REQUIRE_SYNC, ev_ts = ts example_patch_message,
                 ev_key = ''require_sync'',
                 ev_value = ReasonValue ''cache_miss'', ev_raw = NoRaw\<rparr>]"
    by blast
  show ?thesis
    unfolding run lit
    by (simp add: example_patch_message_fields example_block_fields)
qed

subsection \<open>Shape of the parser results\<close>

lemma parseLabelState_keeps:
  "parseLabelState buf res = Inr (Some im) \<Longrightarrow>
     deviceType im = deviceType res \<and> messageType im = messageType res"
  by (auto simp: parseLabelState_def bind_err_Inr_iff)

lemma parseHeartbeat_keeps:
  "parseHeartbeat buf res mid = Inr (Some im) \<Longrightarrow>
     deviceType im = deviceType res \<and> messageType im = messageType res"
  by (auto simp: parseHeartbeat_def bind_err_Inr_iff)

lemma parseDoorState_keeps:
  "parseDoorState buf res mid = Inr (Some im) \<Longrightarrow>
     deviceType im = deviceType res \<and> messageType im = messageType res"
  by (auto simp: parseDoorState_def bind_err_Inr_iff)

lemma parseAAResponse_Some:
  assumes "parseAAResponse buf res mid = Inr (Some im)"
  shows "\<exists>resultCode cm.
      readUInt8 buf 5 = Inr resultCode
    \<and> im = res\<lparr>messageId := Some mid,
               result := Some (if resultCode = 161 then ''Success'' else ''Failure''),
               originalReq := Some (toHexUpper (subarray buf 6 (6 + (int (length buf) - 10)))),
               colorMap := cm\<rparr>
    \<and> (if take 2 (toHexUpper (subarray buf 6 (6 + (int (length buf) - 10)))) = ''E4''
        then \<exists>c. colorMap_loop buf (6 + (int (length buf) - 10)) [] = Inr c \<and> cm = Some c
        else cm = colorMap res)"
proof -
  from assms obtain resultCode where rc: "readUInt8 buf 5 = Inr resultCode"
    and body: "(let resultText = (if resultCode = 161 then ''Success'' else ''Failure'');
            reqLength = int (length buf) - 10;
            origReq = toHexUpper (subarray buf 6 (6 + reqLength));
            res1 = res\<lparr>messageId := Some mid, result := Some resultText,
                        originalReq := Some origReq\<rparr>
        in if take 2 origReq = ''E4''
           then bind_err (colorMap_loop buf (6 + reqLength) []) (\<lambda>cm.
                  Inr (Some (res1\<lparr>colorMap := Some cm\<rparr>)))
           else Inr (Some res1)) = Inr (Some im)"
    unfolding parseAAResponse_def bind_err_Inr_iff by blast
  show ?thesis
  proof (cases "take 2 (toHexUpper (subarray buf 6 (6 + (int (length buf) - 10)))) = ''E4''")
    case True
    from body have "bind_err (colorMap_loop buf (6 + (int (length buf) - 10)) [])
         (\<lambda>cm. Inr (Some (res\<lparr>messageId := Some mid,
               result := Some (if resultCode = 161 then ''Success'' else ''Failure''),
               originalReq := Some (toHexUpper (subarray buf 6 (6 + (int (length buf) - 10))))\<rparr>
               \<lparr>colorMap := Some cm\<rparr>))) = Inr (Some im)"
      unfolding Let_def using True by (simp only: if_True simp_thms)
    then obtain c where "colorMap_loop buf (6 + (int (length buf) - 10)) [] = Inr c"
      and "im = res\<lparr>messageId := Some mid,
               result := Some (if resultCode = 161 then ''Success'' else ''Failure''),
               originalReq := Some (toHexUpper (subarray buf 6 (6 + (int (length buf) - 10)))),
               colorMap := Some c\<rparr>"
      unfolding bind_err_Inr_iff by auto
    with rc True show ?thesis by (intro exI [of _ resultCode] exI [of _ "Some c"]) simp
  next
    case False
    from body have "Inr (Some (res\<lparr>messageId := Some mid,
               result := Some (if resultCode = 161 then ''Success'' else ''Failure''),
               originalReq := Some (toHexUpper (subarray buf 6 (6 + (int (length buf) - 10))))\<rparr>))
            = (Inr (Some im) :: error + parsed_data option)"
      unfolding Let_def using False by (simp only: if_False simp_thms)
    then have "im = res\<lparr>messageId := Some mid,
               result := Some (if resultCode = 161 then ''Success'' else ''Failure''),
               originalReq := Some (toHexUpper (subarray buf 6 (6 + (int (length buf) - 10))))\<rparr>"
      by simp
    with rc False show ?thesis by (intro exI [of _ resultCode] exI [of _ "colorMap res"]) simp
  qed
qed

lemma parseAAResponse_keeps:
  "parseAAResponse buf res mid = Inr (Some im) \<Longrightarrow>
     deviceType im = deviceType res \<and> messageType im = messageType res"
  by (drule parseAAResponse_Some) auto

lemma parseDeviceInfoResponse_keeps:
  "parseDeviceInfoResponse buf res mid = Inr (Some im) \<Longrightarrow>
     deviceType im = deviceType res \<and> messageType im = messageType res"
  by (auto simp: parseDeviceInfoResponse_def bind_err_Inr_iff)

lemma parseModuleInfoResponse_keeps:
  "parseModuleInfoResponse buf res mid = Inr (Some im) \<Longrightarrow>
     deviceType im = deviceType res \<and> messageType im = messageType res"
  by (auto simp: parseModuleInfoResponse_def bind_err_Inr_iff)

lemma parseTemHum_keeps:
  "parseTemHum buf res = Inr (Some im) \<Longrightarrow>
     deviceType im = deviceType res \<and> messageType im = messageType res"
  by (auto simp: parseTemHum_def bind_err_Inr_iff)

lemma parseNoise_keeps:
  "parseNoise buf res = Inr (Some im) \<Longrightarrow>
     deviceType im = deviceType res \<and> messageType im = messageType res"
  by (auto simp: parseNoise_def bind_err_Inr_iff)

lemma parseOpeAck_keeps:
  assumes "parseOpeAck buf res = Inr (Some im)"
  shows "deviceType im = deviceType res \<and> messageType im = messageType res"
proof -
  from assms obtain header :: nat and midNum :: int where
    body: "(let mid = int_to_string midNum in
        if header = 204 \<or> header = 203 then parseHeartbeat buf res mid
        else if header = 186 then parseDoorState buf res mid
        else if header = 187 then parseRfidEvent buf res mid
        else if header = 170 then parseAAResponse buf res mid
        else if header = 239 then
          (if length buf \<ge> 2
           then bind_err (readUInt8 buf 1) (\<lambda>subHeader.
                  if subHeader = 1 then parseDeviceInfoResponse buf res mid
                  else if subHeader = 2 then parseModuleInfoResponse buf res mid
                  else Inr None)
           else Inr None)
        else Inr None) = Inr (Some im)"
    unfolding parseOpeAck_def bind_err_Inr_iff by blast
  then show ?thesis
    by (auto simp: Let_def bind_err_Inr_iff parseRfidEvent_def split: if_splits
          dest: parseHeartbeat_keeps parseDoorState_keeps parseLabelState_keeps
            parseAAResponse_keeps parseDeviceInfoResponse_keeps parseModuleInfoResponse_keeps)
qed

lemma V5008_parse_types:
  assumes "V5008_parse tpc buf now = Some im"
  shows "deviceType im = Some ''V5008''
     \<and> messageType im = headerType buf (index_opt (split_str CHR ''/'' tpc) 2)"
  using assms
  by (auto simp: V5008_parse_def Let_def split: if_splits sum.splits
        dest!: parseOpeAck_keeps parseLabelState_keeps parseTemHum_keeps parseNoise_keeps)

lemma headerType_leading:
  assumes "buf \<noteq> []" and "hd buf = 0xBB \<or> hd buf = 0xBA \<or> hd buf = 0xAA"
  shows "headerType buf sfx = (if hd buf = 0xBB then Some ''LABEL_STATE''
                               else if hd buf = 0xBA then Some ''DOOR_STATE''
                               else Some ''OPE_ACK'')"
  using assms by (cases buf) (auto simp: headerType_def)

lemma headerType_AA:
  assumes "buf \<noteq> []" and "hd buf = 0xAA"
  shows "headerType buf sfx = Some ''OPE_ACK''"
  using assms by (cases buf) (simp_all add: headerType_def)

lemma headerType_BB:
  assumes "buf \<noteq> []" and "hd buf = 0xBB"
  shows "headerType buf sfx = Some ''LABEL_STATE''"
  using assms by (cases buf) (simp_all add: headerType_def)

lemma processV5008_unmatched:
  assumes "messageType pd \<notin> {Some ''OpeAck'', Some ''LabelState'', Some ''TemHum'', Some ''Noise'',
              Some ''HeartBeat'', Some ''HEARTBEAT''}"
  shows "processV5008 pd cache = (Inr [], cache)"
  using assms by (simp add: processV5008_def)

subsection \<open>Decoding the frames of the tests\<close>

lemma topic_parts:
  "split_str CHR ''/'' ''V5008Upload/2437871205/LabelState'' = [''V5008Upload'', ''2437871205'', ''LabelState'']"
  "split_str CHR ''/'' ''V5008Upload/2437871205/OpeAck'' = [''V5008Upload'', ''2437871205'', ''OpeAck'']"
  "split_str CHR ''/'' ''V5008Upload/2437871205/TemHum'' = [''V5008Upload'', ''2437871205'', ''TemHum'']"
  by code_simp+

lemma labelState_frame_reads:
  "readUInt8 labelState_frame 0 = Inr 187"
  "readBigUIntBE labelState_frame 1 = Inr 42731785"
  "readUInt8 labelState_frame 5 = Inr 149"
  "readUInt8 labelState_frame 6 = Inr 0"
  "readUInt8 labelState_frame 7 = Inr 12"
  "labelState_loop 12 labelState_frame 8 [] =
     Inr [\<lparr>uPos = 3, alarmStatus = 10, tagId = ''00DD344A'', action = None\<rparr>,
          \<lparr>uPos = 68, alarmStatus = 11, tagId = ''00DD2862'', action = None\<rparr>,
          \<lparr>uPos = 180, alarmStatus = 12, tagId = ''00DD3CE9'', action = None\<rparr>]"
  "readBigUIntBE labelState_frame 27 = Inr 83888045"
  "toHexUpper labelState_frame = ''BB028C090995000C030A00DD344A440B00DD2862B40C00DD3CE9C4050007AD''"
  by code_simp+

lemma labelState_frame_length: "length labelState_frame = 31"
  by (simp add: labelState_frame_def)

lemma labelState_frame_type: "headerType labelState_frame sfx = Some ''LABEL_STATE''"
  by (simp add: headerType_def labelState_frame_def)

lemma parse_labelState_frame:
  "V5008_parse ''V5008Upload/2437871205/LabelState'' labelState_frame now =
     Some (blank_message\<lparr>topic := ''V5008Upload/2437871205/LabelState'',
        message := Some ''BB028C090995000C030A00DD344A440B00DD2862B40C00DD3CE9C4050007AD'',
        deviceType := Some ''V5008'', deviceId := Some ''2437871205'',
        messageType := Some ''LABEL_STATE'', ts := now,
        messageId := Some ''83888045'', modAddr := Some 187, modId := Some ''42731785'',
        uTotal := Some 0, onlineCount := Some 12,
        items := Some [\<lparr>uPos = 3, alarmStatus = 10, tagId = ''00DD344A'', action = None\<rparr>,
          \<lparr>uPos = 68, alarmStatus = 11, tagId = ''00DD2862'', action = None\<rparr>,
          \<lparr>uPos = 180, alarmStatus = 12, tagId = ''00DD3CE9'', action = None\<rparr>]\<rparr>)"
  by (simp add: V5008_parse_def Let_def parseLabelState_def topic_parts index_opt_def
        labelState_frame_type labelState_frame_reads labelState_frame_length decimal_eval)

lemma heartbeat_frame_length: "length heartbeat_frame = 65"
  by (simp add: heartbeat_frame_def)

lemma heartbeat_frame_type: "headerType heartbeat_frame sfx = Some ''HEARTBEAT''"
  by (simp add: headerType_def heartbeat_frame_def)

lemma heartbeat_frame_reads:
  "readUInt8 heartbeat_frame 0 = Inr 204"
  "readBigUIntBE heartbeat_frame 61 = Inr (- 234875249)"
  "toHexUpper heartbeat_frame = ''CC01EC3737BF06028C0909950C0300000000000400000000000500000000000600000000000700000000000800000000000900000000000A0000000000F200168F''"
  by code_simp+

lemma heartbeat_frame_slots:
  "readUInt8 heartbeat_frame 1 = Inr 1"
  "readBigUIntBE heartbeat_frame 2 = Inr (- 331925569)"
  "readUInt8 heartbeat_frame 6 = Inr 6"
  "readUInt8 heartbeat_frame 7 = Inr 2"
  "readBigUIntBE heartbeat_frame 8 = Inr (- 1945564779)"
  "readUInt8 heartbeat_frame 12 = Inr 12"
  "readUInt8 heartbeat_frame 13 = Inr 3"
  "readBigUIntBE heartbeat_frame 14 = Inr 0"
  "readUInt8 heartbeat_frame 18 = Inr 0"
  "readUInt8 heartbeat_frame 19 = Inr 4"
  "readBigUIntBE heartbeat_frame 20 = Inr 0"
  "readUInt8 heartbeat_frame 24 = Inr 0"
  "readUInt8 heartbeat_frame 25 = Inr 5"
  "readBigUIntBE heartbeat_frame 26 = Inr 0"
  "readUInt8 heartbeat_frame 30 = Inr 0"
  "readUInt8 heartbeat_frame 31 = Inr 6"
  "readBigUIntBE heartbeat_frame 32 = Inr 0"
  "readUInt8 heartbeat_frame 36 = Inr 0"
  "readUInt8 heartbeat_frame 37 = Inr 7"
  "readBigUIntBE heartbeat_frame 38 = Inr 0"
  "readUInt8 heartbeat_frame 42 = Inr 0"
  "readUInt8 heartbeat_frame 43 = Inr 8"
  "readBigUIntBE heartbeat_frame 44 = Inr 0"
  "readUInt8 heartbeat_frame 48 = Inr 0"
  "readUInt8 heartbeat_frame 49 = Inr 9"
  "readBigUIntBE heartbeat_frame 50 = Inr 0"
  "readUInt8 heartbeat_frame 54 = Inr 0"
  by code_simp+

lemma heartbeat_loop_numeral:
  "heartbeat_loop (numeral k) buf offset mods =
     (if offset + 9 > int (length buf) - 4 then Inr mods
      else bind_err (readUInt8 buf offset) (\<lambda>mA.
           bind_err (readBigUIntBE buf (offset + 1)) (\<lambda>mId.
           bind_err (readUInt8 buf (offset + 5)) (\<lambda>uT.
             heartbeat_loop (pred_numeral k) buf (offset + 6)
               (if 1 \<le> mA \<and> mA \<le> 5
                then mods @ [\<lparr>mi_modAddr = mA, mi_modId = Some (int_to_string mId),
                               mi_uTotal = Some uT, mi_fwVer = None\<rparr>]
                else mods)))))"
  by (subst numeral_eq_Suc) (rule heartbeat_loop.simps(2))

lemma heartbeat_frame_modules:
  "heartbeat_loop 10 heartbeat_frame 1 [] =
     Inr [\<lparr>mi_modAddr = 1, mi_modId = Some ''-331925569'', mi_uTotal = Some 6, mi_fwVer = None\<rparr>,
          \<lparr>mi_modAddr = 2, mi_modId = Some ''-1945564779'', mi_uTotal = Some 12, mi_fwVer = None\<rparr>,
          \<lparr>mi_modAddr = 3, mi_modId = Some ''0'', mi_uTotal = Some 0, mi_fwVer = None\<rparr>,
          \<lparr>mi_modAddr = 4, mi_modId = Some ''0'', mi_uTotal = Some 0, mi_fwVer = None\<rparr>,
          \<lparr>mi_modAddr = 5, mi_modId = Some ''0'', mi_uTotal = Some 0, mi_fwVer = None\<rparr>]"
  by (simp add: heartbeat_loop_numeral heartbeat_frame_length heartbeat_frame_slots decimal_eval
        cong: bind_err_weak_cong)

lemma parse_heartbeat_frame:
  "V5008_parse ''V5008Upload/2437871205/OpeAck'' heartbeat_frame now =
     Some (blank_message\<lparr>topic := ''V5008Upload/2437871205/OpeAck'',
        message := Some ''CC01EC3737BF06028C0909950C0300000000000400000000000500000000000600000000000700000000000800000000000900000000000A0000000000F200168F'',
        deviceType := Some ''V5008'', deviceId := Some ''2437871205'',
        messageType := Some ''HEARTBEAT'', ts := now,
        messageId := Some ''-234875249'',
        modules := Some
          [\<lparr>mi_modAddr = 1, mi_modId = Some ''-331925569'', mi_uTotal = Some 6, mi_fwVer = None\<rparr>,
           \<lparr>mi_modAddr = 2, mi_modId = Some ''-1945564779'', mi_uTotal = Some 12, mi_fwVer = None\<rparr>,
           \<lparr>mi_modAddr = 3, mi_modId = Some ''0'', mi_uTotal = Some 0, mi_fwVer = None\<rparr>,
           \<lparr>mi_modAddr = 4, mi_modId = Some ''0'', mi_uTotal = Some 0, mi_fwVer = None\<rparr>,
           \<lparr>mi_modAddr = 5, mi_modId = Some ''0'', mi_uTotal = Some 0, mi_fwVer = None\<rparr>],
        meta := Some \<lparr>voltage = Some (25 / 2), current = Some (4 / 5),
                       mainPower = True, backupPower = False\<rparr>\<rparr>)"
  by (simp add: V5008_parse_def Let_def parseOpeAck_def parseHeartbeat_def topic_parts index_opt_def
        heartbeat_frame_type heartbeat_frame_reads heartbeat_frame_length heartbeat_frame_modules
        decimal_eval
        cong: bind_err_weak_cong)

lemma temHum_frame_length: "length temHum_frame = 39"
  by (simp add: temHum_frame_def)

lemma temHum_frame_type: "headerType temHum_frame (Some ''TemHum'') = Some ''TemHum''"
  by (simp add: headerType_def temHum_frame_def)

lemma temHum_frame_reads:
  "readUInt8 temHum_frame 0 = Inr 1"
  "readBigUIntBE temHum_frame 1 = Inr (- 331925569)"
  "readBigUIntBE temHum_frame 35 = Inr 16854211"
  "toHexUpper temHum_frame = ''01EC3737BF0A1C30331B0B1C08330B0C000000000D000000000E000000000F0000000001012CC3''"
  "temHum_loop 6 temHum_frame 5 [] =
     Inr [\<lparr>sensorAddr = 10, readings = [(''temp'', JNum (712 / 25)), (''hum'', JNum (5127 / 100))]\<rparr>,
          \<lparr>sensorAddr = 11, readings = [(''temp'', JNum (702 / 25)), (''hum'', JNum (5111 / 100))]\<rparr>,
          \<lparr>sensorAddr = 12, readings = [(''temp'', JNull), (''hum'', JNull)]\<rparr>,
          \<lparr>sensorAddr = 13, readings = [(''temp'', JNull), (''hum'', JNull)]\<rparr>,
          \<lparr>sensorAddr = 14, readings = [(''temp'', JNull), (''hum'', JNull)]\<rparr>,
          \<lparr>sensorAddr = 15, readings = [(''temp'', JNull), (''hum'', JNull)]\<rparr>]"
  by code_simp+

lemma parse_temHum_frame:
  "V5008_parse ''V5008Upload/2437871205/TemHum'' temHum_frame now =
     Some (blank_message\<lparr>topic := ''V5008Upload/2437871205/TemHum'',
        message := Some ''01EC3737BF0A1C30331B0B1C08330B0C000000000D000000000E000000000F0000000001012CC3'',
        deviceType := Some ''V5008'', deviceId := Some ''2437871205'',
        messageType := Some ''TemHum'', ts := now,
        messageId := Some ''16854211'', modAddr := Some 1, modId := Some ''-331925569'',
        sensors := Some
          [\<lparr>sensorAddr = 10, readings = [(''temp'', JNum (712 / 25)), (''hum'', JNum (5127 / 100))]\<rparr>,
           \<lparr>sensorAddr = 11, readings = [(''temp'', JNum (702 / 25)), (''hum'', JNum (5111 / 100))]\<rparr>,
           \<lparr>sensorAddr = 12, readings = [(''temp'', JNull), (''hum'', JNull)]\<rparr>,
           \<lparr>sensorAddr = 13, readings = [(''temp'', JNull), (''hum'', JNull)]\<rparr>,
           \<lparr>sensorAddr = 14, readings = [(''temp'', JNull), (''hum'', JNull)]\<rparr>,
           \<lparr>sensorAddr = 15, readings = [(''temp'', JNull), (''hum'', JNull)]\<rparr>]\<rparr>)"
  by (simp add: V5008_parse_def Let_def parseTemHum_def topic_parts index_opt_def
        temHum_frame_type temHum_frame_reads temHum_frame_length decimal_eval
        cong: bind_err_weak_cong)

lemma colorQuery_frame_length: "length colorQuery_frame = 18"
  by (simp add: colorQuery_frame_def)

lemma colorQuery_frame_type: "headerType colorQuery_frame sfx = Some ''OPE_ACK''"
  by (simp add: headerType_def colorQuery_frame_def)

lemma colorQuery_frame_reads:
  "readUInt8 colorQuery_frame 0 = Inr 170"
  "readBigUIntBE colorQuery_frame 14 = Inr 620846412"
  "readBigUIntBE colorQuery_frame 1 = Inr (- 1857096091)"
  "readUInt8 colorQuery_frame 5 = Inr 161"
  "toHexUpper (subarray colorQuery_frame 6 14) = ''E4010000000D0D08''"
  "toHexUpper colorQuery_frame = ''AA914EF665A1E4010000000D0D0825015D4C''"
  by code_simp+

lemma parse_colorQuery_frame:
  "V5008_parse ''V5008Upload/2437871205/OpeAck'' colorQuery_frame now =
     Some (blank_message\<lparr>topic := ''V5008Upload/2437871205/OpeAck'',
        message := Some ''AA914EF665A1E4010000000D0D0825015D4C'',
        deviceType := Some ''V5008'', deviceId := Some ''2437871205'',
        messageType := Some ''OPE_ACK'', ts := now,
        messageId := Some ''620846412'', result := Some ''Success'',
        originalReq := Some ''E4010000000D0D08'', colorMap := Some []\<rparr>)"
  by (simp add: V5008_parse_def Let_def parseOpeAck_def parseAAResponse_def topic_parts index_opt_def
        colorQuery_frame_type colorQuery_frame_reads colorQuery_frame_length decimal_eval
        colorMap_loop.simps
        cong: bind_err_weak_cong)

subsection \<open>Frames typed by their leading byte\<close>

text \<open>
  Claim C4. Every message that \<open>V5008Parser.parse\<close> produces from a frame whose
  leading byte is \<open>0xBB\<close>, \<open>0xBA\<close> or \<open>0xAA\<close> has the message type
  \<open>LABEL_STATE\<close>, \<open>DOOR_STATE\<close> or \<open>OPE_ACK\<close>, and \<open>normalize\<close> returns the empty
  event list for it and leaves the store unchanged: the V5008 switch of the
  normalizer matches none of these spellings (lemma \<open>processV5008_unmatched\<close>).
\<close>

theorem header_typed_frames_yield_no_events:
  assumes "V5008_parse tpc buf now = Some im"
    and "buf \<noteq> []" and "hd buf = 0xBB \<or> hd buf = 0xBA \<or> hd buf = 0xAA"
  shows "messageType im = (if hd buf = 0xBB then Some ''LABEL_STATE''
                           else if hd buf = 0xBA then Some ''DOOR_STATE''
                           else Some ''OPE_ACK'')
     \<and> normalizeData (Some im) cache = (Inr [], cache)"
proof -
  from V5008_parse_types [OF assms(1)] headerType_leading [OF assms(2,3)]
  have ty: "deviceType im = Some ''V5008''"
    and mt: "messageType im = (if hd buf = 0xBB then Some ''LABEL_STATE''
                           else if hd buf = 0xBA then Some ''DOOR_STATE''
                           else Some ''OPE_ACK'')"
    by simp_all
  from mt have "processV5008 im cache = (Inr [], cache)"
    by (intro processV5008_unmatched) (simp split: if_splits)
  with ty mt show ?thesis
    by (simp add: normalizeData_def truthy_str_def)
qed

text \<open>The theorem at the RFID frame of the parser tests.\<close>

theorem header_typed_frames_yield_no_events_witness:
  "\<exists>im. V5008_parse ''V5008Upload/2437871205/LabelState'' labelState_frame ''2025-01-01T10:00:00.000Z'' = Some im
     \<and> messageType im = Some ''LABEL_STATE''
     \<and> normalizeData (Some im) Map.empty = (Inr [], Map.empty)"
proof -
  have ne: "labelState_frame \<noteq> []" and hdv: "hd labelState_frame = 0xBB"
    by (simp_all add: labelState_frame_def)
  from hdv have hd3: "hd labelState_frame = 0xBB \<or> hd labelState_frame = 0xBA \<or> hd labelState_frame = 0xAA"
    by simp
  obtain im where p: "V5008_parse ''V5008Upload/2437871205/LabelState'' labelState_frame ''2025-01-01T10:00:00.000Z'' = Some im"
    using parse_labelState_frame by blast
  from header_typed_frames_yield_no_events [OF p ne hd3, of Map.empty] hdv
  have "messageType im = Some ''LABEL_STATE'' \<and> normalizeData (Some im) Map.empty = (Inr [], Map.empty)"
    by simp
  with p show ?thesis
    by blast
qed

subsection \<open>RFID frames\<close>

text \<open>
  Claim C5. The RFID frame of the parser tests is \<open>BB | 02 | 8C090995 | 00 | 0C |
  03 | three 6-byte tag records | message id\<close>: module address 2, module id
  2349402517, 12 slots, 3 tags at positions 10, 11, 12. \<open>parse\<close> hands the whole
  buffer, leading byte included, to \<open>parseLabelState\<close>, which reads the module
  address at offset 0; every field is read one byte early. The decoded message
  has module address 187 (the byte \<open>0xBB\<close>), 0 slots, an online count of 12, and
  three records cut across the record boundaries.
\<close>

theorem label_state_frame_misaligned:
  "map_option (\<lambda>im. (modAddr im, modId im, uTotal im, onlineCount im, items im))
     (V5008_parse ''V5008Upload/2437871205/LabelState'' labelState_frame ''2025-01-01T10:00:00.000Z'')
   = Some (Some 187, Some ''42731785'', Some 0, Some 12,
           Some [\<lparr>uPos = 3, alarmStatus = 10, tagId = ''00DD344A'', action = None\<rparr>,
                 \<lparr>uPos = 68, alarmStatus = 11, tagId = ''00DD2862'', action = None\<rparr>,
                 \<lparr>uPos = 180, alarmStatus = 12, tagId = ''00DD3CE9'', action = None\<rparr>])"
  by (simp add: parse_labelState_frame)

text \<open>
  The same for every frame with leading byte \<open>0xBB\<close>: the decoded module address
  is 187, and the slot count and online count are the bytes at offsets 6 and 7.
\<close>

lemma label_state_header_offsets:
  assumes "V5008_parse tpc buf now = Some im" and "buf \<noteq> []" and "hd buf = 0xBB"
  shows "modAddr im = Some 187 \<and> uTotal im = Some (unat (buf ! 6))
     \<and> onlineCount im = Some (unat (buf ! 7))"
proof -
  let ?res = "blank_message\<lparr>topic := tpc, message := Some (toHexUpper buf),
                deviceType := Some ''V5008'',
                deviceId := index_opt (split_str CHR ''/'' tpc) 1,
                messageType := Some ''LABEL_STATE'', ts := now\<rparr>"
  have "parseLabelState buf ?res = Inr (Some im)"
    using assms(1) unfolding V5008_parse_def Let_def headerType_BB [OF assms(2,3)]
    by (simp split: sum.splits)
  then obtain mA uT oc where "readUInt8 buf 0 = Inr mA" and "readUInt8 buf 6 = Inr uT"
    and "readUInt8 buf 7 = Inr oc"
    and "modAddr im = Some mA" and "uTotal im = Some uT" and "onlineCount im = Some oc"
    by (auto simp: parseLabelState_def bind_err_Inr_iff)
  with assms(2,3) show ?thesis
    by (auto simp: readUInt8_0 dest!: readUInt8_Inr)
qed

text \<open>
  The bounds check of the tag loop is in place: the loop reads at most the
  announced number of records, and every record it reads ends before the last
  four bytes of the buffer.
\<close>

lemma labelState_loop_bounds:
  assumes "labelState_loop n buf offset its = Inr r"
  shows "\<exists>k \<le> n. length r = length its + k
           \<and> (0 < k \<longrightarrow> offset + 6 * int k \<le> int (length buf) - 4)"
  using assms
proof (induction n arbitrary: offset its)
  case 0
  then show ?case by simp
next
  case (Suc n)
  show ?case
  proof (cases "offset + 6 > int (length buf) - 4")
    case True
    with Suc.prems show ?thesis by auto
  next
    case False
    with Suc.prems obtain it where
      rest: "labelState_loop n buf (offset + 6) (its @ [it]) = Inr r"
      by (auto simp: bind_err_Inr_iff)
    from Suc.IH [OF rest] obtain k where k: "k \<le> n" "length r = length (its @ [it]) + k"
      "0 < k \<longrightarrow> offset + 6 + 6 * int k \<le> int (length buf) - 4"
      by blast
    with False show ?thesis
      by (intro exI [of _ "Suc k"]) auto
  qed
qed

subsection \<open>Message and module ids\<close>

text \<open>
  Claim C6. The heartbeat frame of scenario A. \<open>readBigUIntBE\<close> accumulates with
  \<open><<\<close> and \<open>|\<close>, so a four-byte value with the top bit set comes out negative:
  the module ids are rendered \<open>-331925569\<close> and \<open>-1945564779\<close> (for 3963041727 and
  2349402517) and the message id \<open>-234875249\<close> (for 4060092047). The slots with
  addresses 3, 4 and 5 and id 0 are kept as well, so five records are decoded.
\<close>

theorem heartbeat_frame_signed_ids:
  "map_option (\<lambda>im. (messageId im, modules im))
     (V5008_parse ''V5008Upload/2437871205/OpeAck'' heartbeat_frame ''2025-01-01T10:00:00.000Z'')
   = Some (Some ''-234875249'',
           Some [\<lparr>mi_modAddr = 1, mi_modId = Some ''-331925569'', mi_uTotal = Some 6, mi_fwVer = None\<rparr>,
                 \<lparr>mi_modAddr = 2, mi_modId = Some ''-1945564779'', mi_uTotal = Some 12, mi_fwVer = None\<rparr>,
                 \<lparr>mi_modAddr = 3, mi_modId = Some ''0'', mi_uTotal = Some 0, mi_fwVer = None\<rparr>,
                 \<lparr>mi_modAddr = 4, mi_modId = Some ''0'', mi_uTotal = Some 0, mi_fwVer = None\<rparr>,
                 \<lparr>mi_modAddr = 5, mi_modId = Some ''0'', mi_uTotal = Some 0, mi_fwVer = None\<rparr>])"
  by (simp add: parse_heartbeat_frame)

text \<open>No frame decodes to a value of \<open>2 ^ 31\<close> or more.\<close>

lemma readBigUIntBE_signed_range:
  assumes "readBigUIntBE buf offset = Inr v"
  shows "- (2 ^ 31) \<le> v \<and> v < 2 ^ 31"
proof (cases "offset + 4 > int (length buf)")
  case True
  with assms show ?thesis by (simp add: readBigUIntBE_def)
next
  case False
  with assms obtain w :: "32 word" where "v = sint w"
    by (auto simp: readBigUIntBE_def bind_err_Inr_iff)
  then show ?thesis
    using sint_ge [of w] sint_lt [of w] by simp
qed

text \<open>
  In general: \<open>readBigUIntBE\<close> returns the big-endian unsigned value of the four
  bytes when that is below \<open>2 ^ 31\<close>, and the value minus \<open>2 ^ 32\<close> otherwise; and
  the message id of every decoded frame is the decimal rendering of that signed
  number for its last four bytes.
\<close>

lemma byte_high_bits_clear:
  fixes b :: nat
  assumes "b < 256" and "8 \<le> m"
  shows "\<not> bit b m"
proof -
  have "(2 :: nat) ^ 8 \<le> 2 ^ m"
    using assms(2) by (intro power_increasing) simp_all
  with assms(1) have "b < 2 ^ m"
    by simp
  then show ?thesis
    by (simp add: bit_iff_odd)
qed

lemma be_step:
  fixes v :: "32 word" and b :: nat
  assumes "unat v < 2 ^ 24" and "b < 256"
  shows "unat (push_bit 8 v OR of_nat b) = unat v * 256 + b"
proof -
  have "push_bit 8 v AND (of_nat b :: 32 word) = 0"
  proof (rule bit_eqI)
    fix n
    show "bit (push_bit 8 v AND (of_nat b :: 32 word)) n = bit (0 :: 32 word) n"
      using byte_high_bits_clear [OF assms(2), of n]
      by (auto simp: bit_and_iff bit_push_bit_iff bit_of_nat_iff)
  qed
  then have "push_bit 8 v OR of_nat b = push_bit 8 v + of_nat b"
    by (simp add: disjunctive_add_eq_or)
  also have "\<dots> = v * 256 + of_nat b"
    by (simp add: push_bit_eq_mult)
  finally have m: "unat (push_bit 8 v OR of_nat b) = (unat v * 256 + b) mod 2 ^ 32"
    by (simp add: unat_word_ariths unat_of_nat mod_simps)
  have "unat v < 16777216"
    using assms(1) by simp
  with assms(2) have "unat v * 256 + b < 4294967296"
    by linarith
  then have "unat v * 256 + b < 2 ^ 32"
    by simp
  with m show ?thesis
    by (simp only: mod_less)
qed

lemma be32_unat:
  fixes b0 b1 b2 b3 :: nat
  assumes "b0 < 256" "b1 < 256" "b2 < 256" "b3 < 256"
  shows "unat (push_bit 8 (push_bit 8 (push_bit 8 (push_bit 8 (0 :: 32 word) OR of_nat b0)
            OR of_nat b1) OR of_nat b2) OR of_nat b3)
         = ((b0 * 256 + b1) * 256 + b2) * 256 + b3"
proof -
  let ?v0 = "push_bit 8 (0 :: 32 word) OR of_nat b0"
  let ?v1 = "push_bit 8 ?v0 OR of_nat b1"
  let ?v2 = "push_bit 8 ?v1 OR of_nat b2"
  have u0: "unat ?v0 = b0"
    using be_step [of 0 b0] assms(1) by simp
  have u1: "unat ?v1 = b0 * 256 + b1"
    using be_step [of ?v0 b1] assms(1,2) unfolding u0 by simp
  have "b0 * 256 + b1 < 65536"
    using assms(1,2) by linarith
  then have "b0 * 256 + b1 < 2 ^ 24"
    by simp
  then have u2: "unat ?v2 = (b0 * 256 + b1) * 256 + b2"
    using be_step [of ?v1 b2] assms(3) unfolding u1 by simp
  have "(b0 * 256 + b1) * 256 + b2 = b0 * 65536 + b1 * 256 + b2"
    by simp
  then have "(b0 * 256 + b1) * 256 + b2 < 16777216"
    using assms(1,2,3) by linarith
  then have "(b0 * 256 + b1) * 256 + b2 < 2 ^ 24"
    by simp
  then show ?thesis
    using be_step [of ?v2 b3] assms(4) unfolding u2 by simp
qed

lemma sint_of_uint:
  fixes w :: "32 word"
  shows "sint w = (if uint w < 2 ^ 31 then uint w else uint w - 2 ^ 32)"
proof -
  have s: "sint w = take_bit 32 (uint w + 2 ^ 31) - 2 ^ 31"
    by (simp add: sint_uint signed_take_bit_eq_take_bit_shift)
  have r: "0 \<le> uint w" "uint w < 2 ^ 32"
    using uint_lt2p [of w] by simp_all
  show ?thesis
  proof (cases "uint w < 2 ^ 31")
    case True
    with r have "take_bit 32 (uint w + 2 ^ 31) = uint w + 2 ^ 31"
      by (intro take_bit_int_eq_self) simp_all
    with s True show ?thesis
      by simp
  next
    case False
    have "take_bit 32 (uint w + 2 ^ 31) = (uint w + 2 ^ 31) mod 2 ^ 32"
      by (simp only: take_bit_eq_mod)
    also have "\<dots> = uint w + 2 ^ 31 - 2 ^ 32"
      using False r by (intro int_mod_pos_eq [where q = 1, simplified]) simp_all
    finally show ?thesis
      using s False by simp
  qed
qed

lemma readUInt8_in_range:
  "0 \<le> offset \<Longrightarrow> offset < int (length buf) \<Longrightarrow>
     readUInt8 buf offset = Inr (unat (buf ! nat offset))"
  by (simp add: readUInt8_def)

lemma readBigUIntBE_value:
  assumes "0 \<le> offset" and "offset + 4 \<le> int (length buf)"
  shows "readBigUIntBE buf offset =
           Inr (if be_uint32 buf (nat offset) < 2 ^ 31 then int (be_uint32 buf (nat offset))
                else int (be_uint32 buf (nat offset)) - 2 ^ 32)"
proof -
  let ?b = "\<lambda>i. unat (buf ! (nat offset + i))"
  let ?w = "push_bit 8 (push_bit 8 (push_bit 8 (push_bit 8 (0 :: 32 word) OR of_nat (?b 0))
             OR of_nat (?b 1)) OR of_nat (?b 2)) OR of_nat (?b 3)"
  have r: "readUInt8 buf (offset + int i) = Inr (?b i)" if "i < 4" for i
  proof -
    have "nat (offset + int i) = nat offset + i"
      using assms(1) by simp
    with readUInt8_in_range [of "offset + int i" buf] assms that show ?thesis
      by simp
  qed
  have lt: "?b i < 256" for i
    using unsigned_less [of "buf ! (nat offset + i)", where ?'a = nat] by simp
  have v: "readBigUIntBE buf offset = Inr (sint ?w)"
    using assms r [of 0] r [of 1] r [of 2] r [of 3]
    by (simp add: readBigUIntBE_def)
  have "unat ?w = be_uint32 buf (nat offset)"
    using be32_unat [OF lt [of 0] lt [of 1] lt [of 2] lt [of 3]]
    by (simp add: be_uint32_def)
  then have "uint ?w = int (be_uint32 buf (nat offset))"
    by (simp only: uint_nat)
  with sint_of_uint [of ?w] have "sint ?w =
      (if be_uint32 buf (nat offset) < 2 ^ 31 then int (be_uint32 buf (nat offset))
       else int (be_uint32 buf (nat offset)) - 2 ^ 32)"
    by simp
  with v show ?thesis
    by simp
qed

lemma parseHeartbeat_messageId:
  "parseHeartbeat buf res mid = Inr (Some im) \<Longrightarrow> messageId im = Some mid"
  by (auto simp: parseHeartbeat_def bind_err_Inr_iff)

lemma parseDoorState_messageId:
  "parseDoorState buf res mid = Inr (Some im) \<Longrightarrow> messageId im = Some mid"
  by (auto simp: parseDoorState_def bind_err_Inr_iff)

lemma parseAAResponse_messageId:
  "parseAAResponse buf res mid = Inr (Some im) \<Longrightarrow> messageId im = Some mid"
  by (drule parseAAResponse_Some) auto

lemma parseDeviceInfoResponse_messageId:
  "parseDeviceInfoResponse buf res mid = Inr (Some im) \<Longrightarrow> messageId im = Some mid"
  by (auto simp: parseDeviceInfoResponse_def bind_err_Inr_iff)

lemma parseModuleInfoResponse_messageId:
  "parseModuleInfoResponse buf res mid = Inr (Some im) \<Longrightarrow> messageId im = Some mid"
  by (auto simp: parseModuleInfoResponse_def bind_err_Inr_iff)

lemma parseLabelState_messageId:
  "parseLabelState buf res = Inr (Some im) \<Longrightarrow>
     \<exists>m. readBigUIntBE buf (int (length buf) - 4) = Inr m \<and> messageId im = Some (int_to_string m)"
  by (auto simp: parseLabelState_def bind_err_Inr_iff)

lemma parseTemHum_messageId:
  "parseTemHum buf res = Inr (Some im) \<Longrightarrow>
     \<exists>m. readBigUIntBE buf (int (length buf) - 4) = Inr m \<and> messageId im = Some (int_to_string m)"
  by (auto simp: parseTemHum_def bind_err_Inr_iff)

lemma parseNoise_messageId:
  "parseNoise buf res = Inr (Some im) \<Longrightarrow>
     \<exists>m. readBigUIntBE buf (int (length buf) - 4) = Inr m \<and> messageId im = Some (int_to_string m)"
  by (auto simp: parseNoise_def bind_err_Inr_iff)

lemma parseOpeAck_messageId:
  assumes "parseOpeAck buf res = Inr (Some im)" and "buf \<noteq> []" and "hd buf \<noteq> 0xBB"
  shows "\<exists>m. readBigUIntBE buf (int (length buf) - 4) = Inr m \<and> messageId im = Some (int_to_string m)"
proof -
  from assms(1) obtain header :: nat and midNum :: int
    where h: "readUInt8 buf 0 = Inr header"
      and m: "readBigUIntBE buf (int (length buf) - 4) = Inr midNum"
      and body: "(if header = 204 \<or> header = 203 then parseHeartbeat buf res (int_to_string midNum)
        else if header = 186 then parseDoorState buf res (int_to_string midNum)
        else if header = 187 then parseRfidEvent buf res (int_to_string midNum)
        else if header = 170 then parseAAResponse buf res (int_to_string midNum)
        else if header = 239 then
          (if length buf \<ge> 2
           then bind_err (readUInt8 buf 1) (\<lambda>subHeader.
                  if subHeader = 1 then parseDeviceInfoResponse buf res (int_to_string midNum)
                  else if subHeader = 2 then parseModuleInfoResponse buf res (int_to_string midNum)
                  else Inr None)
           else Inr None)
        else Inr None) = Inr (Some im)"
    unfolding parseOpeAck_def bind_err_Inr_iff Let_def by blast
  have "header \<noteq> 187"
  proof
    assume "header = 187"
    with h assms(2) have "unat (hd buf) = unat (0xBB :: 8 word)"
      by (simp add: readUInt8_0)
    then have "hd buf = 0xBB"
      by (simp only: word_unat_eq_iff)
    with assms(3) show False by simp
  qed
  with body have "messageId im = Some (int_to_string midNum)"
    by (auto simp: bind_err_Inr_iff split: if_splits
          dest: parseHeartbeat_messageId parseDoorState_messageId parseAAResponse_messageId
            parseDeviceInfoResponse_messageId parseModuleInfoResponse_messageId)
  with m show ?thesis by blast
qed

lemma readBigUIntBE_tail_defined:
  assumes "readBigUIntBE buf (int (length buf) - 4) = Inr m"
  shows "4 \<le> length buf"
proof (rule ccontr)
  assume "\<not> 4 \<le> length buf"
  then have neg: "int (length buf) - 4 < 0"
    by simp
  then have "readUInt8 buf (int (length buf) - 4 + int 0) = Inl RangeError"
    by (simp add: readUInt8_def)
  with assms show False
    by (simp add: readBigUIntBE_def)
qed

lemma V5008_parse_messageId:
  assumes "V5008_parse tpc buf now = Some im"
  shows "4 \<le> length buf
     \<and> messageId im =
         Some (int_to_string
                (if be_uint32 buf (length buf - 4) < 2 ^ 31 then int (be_uint32 buf (length buf - 4))
                 else int (be_uint32 buf (length buf - 4)) - 2 ^ 32))"
proof -
  let ?sfx = "index_opt (split_str CHR ''/'' tpc) 2"
  let ?res = "blank_message\<lparr>topic := tpc, message := Some (toHexUpper buf),
                deviceType := Some ''V5008'',
                deviceId := index_opt (split_str CHR ''/'' tpc) 1,
                messageType := headerType buf ?sfx, ts := now\<rparr>"
  have ex: "\<exists>m. readBigUIntBE buf (int (length buf) - 4) = Inr m \<and> messageId im = Some (int_to_string m)"
  proof (cases "buf \<noteq> [] \<and> hd buf = 0xBB")
    case True
    then have "headerType buf ?sfx = Some ''LABEL_STATE''"
      by (simp add: headerType_BB)
    with assms have "parseLabelState buf ?res = Inr (Some im)"
      unfolding V5008_parse_def Let_def by (simp split: sum.splits)
    then show ?thesis
      by (rule parseLabelState_messageId)
  next
    case False
    from assms consider "parseOpeAck buf ?res = Inr (Some im)"
      | "parseLabelState buf ?res = Inr (Some im)"
      | "parseTemHum buf ?res = Inr (Some im)"
      | "parseNoise buf ?res = Inr (Some im)"
      unfolding V5008_parse_def Let_def by (auto split: if_splits sum.splits)
    then show ?thesis
    proof cases
      case 1
      then have "buf \<noteq> []"
        by (auto simp: parseOpeAck_def readUInt8_def)
      with False 1 show ?thesis
        by (intro parseOpeAck_messageId) simp_all
    next
      case 2
      then show ?thesis by (rule parseLabelState_messageId)
    next
      case 3
      then show ?thesis by (rule parseTemHum_messageId)
    next
      case 4
      then show ?thesis by (rule parseNoise_messageId)
    qed
  qed
  then obtain m where m: "readBigUIntBE buf (int (length buf) - 4) = Inr m"
    and mid: "messageId im = Some (int_to_string m)"
    by blast
  from readBigUIntBE_tail_defined [OF m] have len: "4 \<le> length buf" .
  then have "nat (int (length buf) - 4) = length buf - 4"
    by simp
  with readBigUIntBE_value [of "int (length buf) - 4" buf] len m
  have "m = (if be_uint32 buf (length buf - 4) < 2 ^ 31 then int (be_uint32 buf (length buf - 4))
                 else int (be_uint32 buf (length buf - 4)) - 2 ^ 32)"
    by simp
  with len mid show ?thesis
    by simp
qed

subsection \<open>RFID action inference\<close>

lemma get_prop_total:
  assumes "get_prop v name = Inr x"
  shows "\<exists>y. get_prop v name' = Inr y"
  using assms by (cases v) (simp_all add: get_prop_def)

lemma parseTag_action:
  assumes "get_prop tagData ''new_state'' = Inr ns" and "get_prop tagData ''old_state'' = Inr os"
  shows "\<exists>it. parseTag tagData = Inr it \<and> v6_action it = inferAction ns os"
proof -
  from get_prop_total [OF assms(1)] obtain ui w tc
    where "get_prop tagData ''u_index'' = Inr ui" and "get_prop tagData ''warning'' = Inr w"
      and "get_prop tagData ''tag_code'' = Inr tc"
    by metis
  with assms show ?thesis
    by (simp add: parseTag_def)
qed

lemma parseTags_items:
  "parseTags tds acc = Inr r \<longleftrightarrow>
     (\<exists>its. list_all2 (\<lambda>td it. parseTag td = Inr it) tds its \<and> r = acc @ its)"
proof (induction tds arbitrary: acc)
  case Nil
  then show ?case by auto
next
  case (Cons td tds)
  show ?case
  proof (cases "parseTag td")
    case (Inl e)
    then show ?thesis by (auto simp: list_all2_Cons1)
  next
    case (Inr it)
    then show ?thesis
      by (auto simp: Cons.IH list_all2_Cons1)
  qed
qed

text \<open>
  Claim C7. For a tag record that carries both state flags, the decoded action
  is \<open>attached\<close> exactly when \<open>new_state\<close> is the number 1 and \<open>old_state\<close> the
  number 0, \<open>detached\<close> exactly when \<open>new_state\<close> is 0 and \<open>old_state\<close> is 1, and
  \<open>null\<close> in every other case. The two records of scenario B decode to
  \<open>attached\<close> and \<open>detached\<close>.
\<close>

theorem rfid_action_inference:
  assumes "get_prop tagData ''new_state'' = Inr (Some ns)"
    and "get_prop tagData ''old_state'' = Inr (Some os)"
  shows "\<exists>it. parseTag tagData = Inr it
     \<and> (v6_action it = Some ''attached'' \<longleftrightarrow> ns = JsNumber 1 \<and> os = JsNumber 0)
     \<and> (v6_action it = Some ''detached'' \<longleftrightarrow> ns = JsNumber 0 \<and> os = JsNumber 1)
     \<and> (v6_action it = None \<longleftrightarrow>
          \<not> (ns = JsNumber 1 \<and> os = JsNumber 0) \<and> \<not> (ns = JsNumber 0 \<and> os = JsNumber 1))
     \<and> V6800_parseLabelState scenarioB_json =
         Inr [\<lparr>v6_modAddr = Some (JsNumber 2), v6_modId_src = Some (JsString ''3963041727''),
               v6_items =
                 [\<lparr>v6_uPos = Some (JsNumber 3), v6_alarmStatus = Some (JsNumber 0),
                   v6_tagId = Some (JsString ''DD23B0B4''), v6_action = Some ''attached''\<rparr>,
                  \<lparr>v6_uPos = Some (JsNumber 1), v6_alarmStatus = Some (JsNumber 0),
                   v6_tagId = Some (JsString ''DD395064''), v6_action = Some ''detached''\<rparr>]\<rparr>]"
proof -
  from parseTag_action [OF assms] obtain it
    where it: "parseTag tagData = Inr it" and act: "v6_action it = inferAction (Some ns) (Some os)"
    by blast
  have scen: "V6800_parseLabelState scenarioB_json =
         Inr [\<lparr>v6_modAddr = Some (JsNumber 2), v6_modId_src = Some (JsString ''3963041727''),
               v6_items =
                 [\<lparr>v6_uPos = Some (JsNumber 3), v6_alarmStatus = Some (JsNumber 0),
                   v6_tagId = Some (JsString ''DD23B0B4''), v6_action = Some ''attached''\<rparr>,
                  \<lparr>v6_uPos = Some (JsNumber 1), v6_alarmStatus = Some (JsNumber 0),
                   v6_tagId = Some (JsString ''DD395064''), v6_action = Some ''detached''\<rparr>]\<rparr>]"
    by code_simp
  from it act scen show ?thesis
    by (auto simp: inferAction_def)
qed

text \<open>The theorem at the first tag record of scenario B.\<close>

theorem rfid_action_inference_witness:
  "\<exists>it. parseTag (JsObject [(''u_index'', JsNumber 3), (''new_state'', JsNumber 1),
                             (''old_state'', JsNumber 0), (''tag_code'', JsString ''DD23B0B4''),
                             (''warning'', JsNumber 0)]) = Inr it
     \<and> v6_action it = Some ''attached''"
proof -
  let ?td = "JsObject [(''u_index'', JsNumber 3), (''new_state'', JsNumber 1),
                             (''old_state'', JsNumber 0), (''tag_code'', JsString ''DD23B0B4''),
                             (''warning'', JsNumber 0)]"
  have n: "get_prop ?td ''new_state'' = Inr (Some (JsNumber 1))"
    by (simp add: get_prop_def)
  have o: "get_prop ?td ''old_state'' = Inr (Some (JsNumber 0))"
    by (simp add: get_prop_def)
  from rfid_action_inference [OF n o] show ?thesis
    by blast
qed

subsection \<open>Sentinel readings\<close>

text \<open>
  Claim C8. The temperature and humidity frame of the parser tests has two used
  slots (addresses 10 and 11) and four slots whose value bytes are all zero
  (addresses 12 to 15). The parser stores the readings under the names \<open>temp\<close>
  and \<open>hum\<close>; the normalizer reads \<open>sensor['temperature']\<close> and
  \<open>sensor['humidity']\<close>, which are \<open>undefined\<close>, and \<open>undefined\<close> is not \<open>null\<close>.
  Every slot, the four sentinel slots included, yields two \<open>SYS_TELEMETRY\<close> events
  whose value is \<open>undefined\<close>: twelve events in all.
\<close>

theorem sentinel_slots_emit_telemetry:
  "\<exists>evs. normalizeData
            (V5008_parse ''V5008Upload/2437871205/TemHum'' temHum_frame ''2025-01-01T10:00:00.000Z'')
            Map.empty = (Inr evs, Map.empty)
     \<and> map (\<lambda>e. (ev_type e, id_sensorAddr (ev_identity e), ev_key e, ev_value e)) evs
         = [(SYS_TELEMETRY, 10, ''temperature'', NumValue JUndefined),
            (SYS_TELEMETRY, 10, ''humidity'', NumValue JUndefined),
            (SYS_TELEMETRY, 11, ''temperature'', NumValue JUndefined),
            (SYS_TELEMETRY, 11, ''humidity'', NumValue JUndefined),
            (SYS_TELEMETRY, 12, ''temperature'', NumValue JUndefined),
            (SYS_TELEMETRY, 12, ''humidity'', NumValue JUndefined),
            (SYS_TELEMETRY, 13, ''temperature'', NumValue JUndefined),
            (SYS_TELEMETRY, 13, ''humidity'', NumValue JUndefined),
            (SYS_TELEMETRY, 14, ''temperature'', NumValue JUndefined),
            (SYS_TELEMETRY, 14, ''humidity'', NumValue JUndefined),
            (SYS_TELEMETRY, 15, ''temperature'', NumValue JUndefined),
            (SYS_TELEMETRY, 15, ''humidity'', NumValue JUndefined)]"
  by (simp add: parse_temHum_frame normalizeData_def truthy_str_def processV5008_def
        flattenTelemetry_def flattenSensor_def sensor_prop_def telemetry_event_def spread_def
        blank_message_def)

text \<open>
  What does hold of the decoder and of the flattening: the pair \<open>(0, 0)\<close> decodes
  to \<open>null\<close>, no pair decodes to the number zero, and a sensor whose looked-up
  readings are \<open>null\<close> yields no event.
\<close>

lemma parseSignedDecimal_sentinel:
  assumes "0 \<le> offset" and "offset + 1 < int (length buf)"
    and "buf ! nat offset = 0" and "buf ! nat (offset + 1) = 0"
  shows "parseSignedDecimal buf offset = Inr JNull"
  using assms by (simp add: parseSignedDecimal_def readInt8_def readUInt8_def)

lemma parseSignedDecimal_never_zero: "parseSignedDecimal buf offset \<noteq> Inr (JNum 0)"
proof
  assume a: "parseSignedDecimal buf offset = Inr (JNum 0)"
  then obtain i :: int and f :: nat where nz: "\<not> (i = 0 \<and> f = 0)"
    and v: "(if i < 0 then - (of_int \<bar>i\<bar> + of_nat f / 100) else of_int \<bar>i\<bar> + of_nat f / 100) = (0 :: rat)"
    by (auto simp: parseSignedDecimal_def bind_err_Inr_iff Let_def split: if_splits)
  have "0 \<le> (of_int \<bar>i\<bar> :: rat)" and "0 \<le> (of_nat f / 100 :: rat)"
    by simp_all
  moreover from v have "(of_int \<bar>i\<bar> + of_nat f / 100 :: rat) = 0"
    by (simp split: if_splits)
  ultimately have "(of_int \<bar>i\<bar> :: rat) = 0" and "(of_nat f / 100 :: rat) = 0"
    by linarith+
  then have "i = 0" and "f = 0"
    by simp_all
  with nz show False by simp
qed

lemma flattenNoiseSensor_null:
  "sensor_prop s ''noise'' = JNull \<Longrightarrow> flattenNoiseSensor pd ident s = []"
  by (simp add: flattenNoiseSensor_def)

lemma flattenSensor_null:
  "sensor_prop s tempKey = JNull \<Longrightarrow> sensor_prop s humKey = JNull \<Longrightarrow>
     flattenSensor pd ident tempKey humKey s = []"
  by (simp add: flattenSensor_def)

text \<open>
  In general: every sensor of a message that the parser decodes from a
  temperature and humidity frame carries the keys \<open>temp\<close> and \<open>hum\<close> only, and
  \<open>normalize\<close> turns each of them into two events with value \<open>undefined\<close>.
\<close>

lemma temHum_loop_readings:
  assumes "temHum_loop n buf offset ss = Inr r"
    and "\<forall>s \<in> set ss. map fst (readings s) = [''temp'', ''hum'']"
  shows "\<forall>s \<in> set r. map fst (readings s) = [''temp'', ''hum'']"
  using assms
proof (induction n arbitrary: offset ss)
  case 0
  then show ?case by simp
next
  case (Suc n)
  show ?case
  proof (cases "offset + 5 > int (length buf) - 4")
    case True
    with Suc.prems show ?thesis by simp
  next
    case False
    with Suc.prems(1) obtain s where
      rest: "temHum_loop n buf (offset + 5) (ss @ [s]) = Inr r"
      and keys: "map fst (readings s) = [''temp'', ''hum'']"
      by (auto simp: bind_err_Inr_iff split: if_splits)
    from keys Suc.prems(2) have "\<forall>x \<in> set (ss @ [s]). map fst (readings x) = [''temp'', ''hum'']"
      by simp
    from Suc.IH [OF rest this] show ?thesis .
  qed
qed

lemma temp_hum_keys_undefined:
  assumes "map fst (readings s) = [''temp'', ''hum'']"
  shows "sensor_prop s ''temperature'' = JUndefined \<and> sensor_prop s ''humidity'' = JUndefined"
proof -
  from assms obtain a b where "readings s = [(''temp'', a), (''hum'', b)]"
    by (cases "readings s") (auto simp: map_eq_Cons_conv)
  then show ?thesis
    by (simp add: sensor_prop_def)
qed

lemma flattenSensor_temp_hum:
  assumes "map fst (readings s) = [''temp'', ''hum'']"
  shows "flattenSensor pd ident ''temperature'' ''humidity'' s =
     [telemetry_event ident (modAddr pd) (sensorAddr s) (ts pd) ''temperature'' JUndefined
        (RawModId (modId pd)),
      telemetry_event ident (modAddr pd) (sensorAddr s) (ts pd) ''humidity'' JUndefined
        (RawModId (modId pd))]"
  using temp_hum_keys_undefined [OF assms] by (simp add: flattenSensor_def)

lemma parsed_temHum_flattening:
  assumes "V5008_parse tpc buf now = Some im" and "messageType im = Some ''TemHum''"
  shows "\<exists>ss. sensors im = Some ss
     \<and> normalizeData (Some im) cache =
         (Inr (concat (map (\<lambda>s.
            [telemetry_event (deviceId im, ''V5008'') (modAddr im) (sensorAddr s) (ts im)
               ''temperature'' JUndefined (RawModId (modId im)),
             telemetry_event (deviceId im, ''V5008'') (modAddr im) (sensorAddr s) (ts im)
               ''humidity'' JUndefined (RawModId (modId im))]) ss)), cache)"
proof -
  let ?sfx = "index_opt (split_str CHR ''/'' tpc) 2"
  let ?res = "blank_message\<lparr>topic := tpc, message := Some (toHexUpper buf),
                deviceType := Some ''V5008'',
                deviceId := index_opt (split_str CHR ''/'' tpc) 1,
                messageType := headerType buf ?sfx, ts := now\<rparr>"
  from V5008_parse_types [OF assms(1)] assms(2)
  have ty: "deviceType im = Some ''V5008''" and ht: "headerType buf ?sfx = Some ''TemHum''"
    by simp_all
  from assms(1) have "parseTemHum buf ?res = Inr (Some im)"
    unfolding V5008_parse_def Let_def ht by (simp split: sum.splits)
  then obtain ss where loop: "temHum_loop 6 buf 5 [] = Inr ss" and ss: "sensors im = Some ss"
    by (auto simp: parseTemHum_def bind_err_Inr_iff)
  from temHum_loop_readings [OF loop] have keys: "\<forall>s \<in> set ss. map fst (readings s) = [''temp'', ''hum'']"
    by simp
  have "map (flattenSensor im (deviceId im, ''V5008'') ''temperature'' ''humidity'') ss =
        map (\<lambda>s.
            [telemetry_event (deviceId im, ''V5008'') (modAddr im) (sensorAddr s) (ts im)
               ''temperature'' JUndefined (RawModId (modId im)),
             telemetry_event (deviceId im, ''V5008'') (modAddr im) (sensorAddr s) (ts im)
               ''humidity'' JUndefined (RawModId (modId im))]) ss"
    using keys by (intro map_cong refl flattenSensor_temp_hum) simp
  then have "flattenTelemetry im (deviceId im, ''V5008'') ''temperature'' ''humidity'' =
        concat (map (\<lambda>s.
            [telemetry_event (deviceId im, ''V5008'') (modAddr im) (sensorAddr s) (ts im)
               ''temperature'' JUndefined (RawModId (modId im)),
             telemetry_event (deviceId im, ''V5008'') (modAddr im) (sensorAddr s) (ts im)
               ''humidity'' JUndefined (RawModId (modId im))]) ss)"
    unfolding flattenTelemetry_def ss by (simp only: option.case)
  with ty assms(2) ss show ?thesis
    by (simp add: normalizeData_def truthy_str_def processV5008_def)
qed

subsection \<open>Responses\<close>

lemma hex_digit_upper_E: "d < 16 \<Longrightarrow> hex_digit_upper d = CHR ''E'' \<longleftrightarrow> d = 14"
proof -
  assume d: "d < 16"
  have "hex_digit_upper d = CHR ''E'' \<longleftrightarrow> (of_char (hex_digit_upper d) :: nat) = of_char CHR ''E''"
    by (simp only: of_char_eq_iff)
  also have "\<dots> \<longleftrightarrow> d = 14"
    using d by (auto simp: hex_digit_upper_def)
  finally show ?thesis .
qed

lemma hex_digit_upper_4: "d < 16 \<Longrightarrow> hex_digit_upper d = CHR ''4'' \<longleftrightarrow> d = 4"
proof -
  assume d: "d < 16"
  have "hex_digit_upper d = CHR ''4'' \<longleftrightarrow> (of_char (hex_digit_upper d) :: nat) = of_char CHR ''4''"
    by (simp only: of_char_eq_iff)
  also have "\<dots> \<longleftrightarrow> d = 4"
    using d by (auto simp: hex_digit_upper_def)
  finally show ?thesis .
qed

lemma unat_E4: "unat (b :: 8 word) div 16 = 14 \<and> unat b mod 16 = 4 \<longleftrightarrow> b = 0xE4"
proof
  assume "unat b div 16 = 14 \<and> unat b mod 16 = 4"
  then have "unat b = 228" by presburger
  then have "unat b = unat (0xE4 :: 8 word)" by simp
  then show "b = 0xE4" by (simp only: word_unat_eq_iff)
next
  assume "b = 0xE4" then show "unat b div 16 = 14 \<and> unat b mod 16 = 4" by simp
qed

lemma starts_with_E4:
  "take 2 (toHexUpper bs) = ''E4'' \<longleftrightarrow> bs \<noteq> [] \<and> hd bs = 0xE4"
proof (cases bs)
  case Nil
  then show ?thesis by (simp add: toHexUpper_def)
next
  case (Cons b rest)
  have lt: "unat b div 16 < 16" "unat b mod 16 < 16"
    using unsigned_less [of b, where ?'a = nat] by simp_all
  show ?thesis
    using Cons hex_digit_upper_E [OF lt(1)] hex_digit_upper_4 [OF lt(2)] unat_E4 [of b]
    by (simp add: toHexUpper_def)
qed

lemma V5008_parse_AA:
  assumes "V5008_parse tpc buf now = Some im" and "buf \<noteq> []" and "hd buf = 0xAA"
  shows "\<exists>res mid. parseAAResponse buf res mid = Inr (Some im) \<and> colorMap res = None"
proof -
  let ?res = "blank_message\<lparr>topic := tpc, message := Some (toHexUpper buf),
                deviceType := Some ''V5008'',
                deviceId := index_opt (split_str CHR ''/'' tpc) 1,
                messageType := Some ''OPE_ACK'', ts := now\<rparr>"
  have "parseOpeAck buf ?res = Inr (Some im)"
    using assms(1) unfolding V5008_parse_def Let_def headerType_AA [OF assms(2,3)]
    by (simp split: sum.splits)
  then obtain header :: nat and midNum :: int
    where h: "readUInt8 buf 0 = Inr header"
      and body: "(if header = 204 \<or> header = 203 then parseHeartbeat buf ?res (int_to_string midNum)
        else if header = 186 then parseDoorState buf ?res (int_to_string midNum)
        else if header = 187 then parseRfidEvent buf ?res (int_to_string midNum)
        else if header = 170 then parseAAResponse buf ?res (int_to_string midNum)
        else if header = 239 then
          (if length buf \<ge> 2
           then bind_err (readUInt8 buf 1) (\<lambda>subHeader.
                  if subHeader = 1 then parseDeviceInfoResponse buf ?res (int_to_string midNum)
                  else if subHeader = 2 then parseModuleInfoResponse buf ?res (int_to_string midNum)
                  else Inr None)
           else Inr None)
        else Inr None) = Inr (Some im)"
    unfolding parseOpeAck_def bind_err_Inr_iff Let_def by blast
  from h assms(2,3) have "header = 170"
    by (simp add: readUInt8_0)
  with body have "parseAAResponse buf ?res (int_to_string midNum) = Inr (Some im)"
    by simp
  moreover have "colorMap ?res = None"
    by (simp add: blank_message_def)
  ultimately show ?thesis by blast
qed

lemma subarray_echo:
  assumes "6 \<le> length buf"
  shows "subarray buf 6 (6 + (int (length buf) - 10)) = bytes_between buf 6 (length buf - 4)"
proof -
  have n: "nat (int (length buf) - 4) = length buf - 4"
    using assms by linarith
  have m: "length buf - 4 - 6 = length buf - 10"
    by simp
  show ?thesis
    using assms by (auto simp: subarray_def clamp_index_def bytes_between_def Let_def n m)
qed

lemma colorMap_loop_at_end: "colorMap_loop buf (6 + (int (length buf) - 10)) [] = Inr []"
  by (simp add: colorMap_loop.simps)

text \<open>
  Claim C9. The colour-query response of the parser tests is \<open>AA | 914EF665 |
  A1 | E401 | 00 00 00 0D 0D 08 | message id\<close>: result code \<open>0xA1\<close>, the echoed
  request \<open>E401\<close>, and six colour codes. \<open>parseAAResponse\<close> takes
  \<open>reqLength = buffer.length - 10\<close>, which is every byte between the result
  code and the message id, so the colour bytes end up in \<open>originalReq\<close> and the
  colour loop, which starts where the message id starts, never runs. The
  decoded message has \<open>result = Success\<close>, \<open>originalReq = E4010000000D0D08\<close> and
  an empty \<open>colorMap\<close>, where the parser test expects \<open>E401\<close> and
  \<open>[0, 0, 0, 13, 13, 8]\<close>.
\<close>

theorem color_query_frame_swallowed:
  "map_option (\<lambda>im. (result im, originalReq im, colorMap im))
     (V5008_parse ''V5008Upload/2437871205/OpeAck'' colorQuery_frame ''2025-01-01T10:00:00.000Z'')
   = Some (Some ''Success'', Some ''E4010000000D0D08'', Some [])"
  by (simp add: parse_colorQuery_frame)

text \<open>
  In general, for every frame with leading byte \<open>0xAA\<close> that \<open>parse\<close> decodes: the
  frame has at least 6 bytes; \<open>result\<close> is \<open>Success\<close> exactly when the byte at
  offset 5 is \<open>0xA1\<close>, else \<open>Failure\<close>; \<open>originalReq\<close> is the upper-case hex of the
  bytes from offset 6 up to the message id, a span of (frame length - 10) bytes
  (none when the frame is shorter); and \<open>colorMap\<close> is set exactly when that span
  starts with the byte \<open>0xE4\<close>, to the bytes between the end of the span and the
  message id, of which there are none. So no frame decodes to a colour code.
\<close>

lemma ope_ack_decode:
  assumes "V5008_parse tpc buf now = Some im" and "buf \<noteq> []" and "hd buf = 0xAA"
  shows "6 \<le> length buf
     \<and> result im = Some (if buf ! 5 = 0xA1 then ''Success'' else ''Failure'')
     \<and> originalReq im = Some (toHexUpper (bytes_between buf 6 (length buf - 4)))
     \<and> length (bytes_between buf 6 (length buf - 4)) = length buf - 10
     \<and> colorMap im =
         (if 10 < length buf \<and> buf ! 6 = 0xE4
          then Some (map unat (bytes_between buf (6 + (length buf - 10)) (length buf - 4)))
          else None)
     \<and> bytes_between buf (6 + (length buf - 10)) (length buf - 4) = []"
proof -
  from V5008_parse_AA [OF assms] obtain res mid
    where p: "parseAAResponse buf res mid = Inr (Some im)" and cm0: "colorMap res = None"
    by blast
  from parseAAResponse_Some [OF p] obtain resultCode cm
    where rc: "readUInt8 buf 5 = Inr resultCode"
      and im: "im = res\<lparr>messageId := Some mid,
               result := Some (if resultCode = 161 then ''Success'' else ''Failure''),
               originalReq := Some (toHexUpper (subarray buf 6 (6 + (int (length buf) - 10)))),
               colorMap := cm\<rparr>"
      and cm: "if take 2 (toHexUpper (subarray buf 6 (6 + (int (length buf) - 10)))) = ''E4''
        then \<exists>c. colorMap_loop buf (6 + (int (length buf) - 10)) [] = Inr c \<and> cm = Some c
        else cm = colorMap res"
    by blast
  from readUInt8_Inr [OF rc] have len: "6 \<le> length buf" and rcv: "resultCode = unat (buf ! 5)"
    by simp_all
  have code: "(resultCode = 161) = (buf ! 5 = 0xA1)"
  proof -
    have "(unat (buf ! 5) = unat (0xA1 :: 8 word)) = (buf ! 5 = 0xA1)"
      by (simp only: word_unat_eq_iff)
    then show ?thesis using rcv by simp
  qed
  have echo: "subarray buf 6 (6 + (int (length buf) - 10)) = bytes_between buf 6 (length buf - 4)"
    by (rule subarray_echo [OF len])
  have elen: "length (bytes_between buf 6 (length buf - 4)) = length buf - 10"
    using len by (simp add: bytes_between_def)
  have e4: "take 2 (toHexUpper (bytes_between buf 6 (length buf - 4))) = ''E4''
              \<longleftrightarrow> 10 < length buf \<and> buf ! 6 = 0xE4"
  proof (cases "10 < length buf")
    case True
    then have "bytes_between buf 6 (length buf - 4) \<noteq> []"
      and "hd (bytes_between buf 6 (length buf - 4)) = buf ! 6"
      by (simp_all add: bytes_between_def hd_take hd_drop_conv_nth)
    with True show ?thesis by (simp add: starts_with_E4)
  next
    case False
    then have "bytes_between buf 6 (length buf - 4) = []"
      by (simp add: bytes_between_def)
    with False show ?thesis by (simp add: toHexUpper_def)
  qed
  have trailing: "bytes_between buf (6 + (length buf - 10)) (length buf - 4) = []"
    by (simp add: bytes_between_def)
  have cmv: "cm = (if 10 < length buf \<and> buf ! 6 = 0xE4 then Some [] else None)"
    using cm cm0 unfolding echo e4 colorMap_loop_at_end by (auto split: if_splits)
  have trailing': "bytes_between buf (length buf - 4) (length buf - 4) = []"
    by (simp add: bytes_between_def)
  show ?thesis
    unfolding im using len elen trailing trailing' cmv code echo by simp
qed

lemma color_map_never_filled:
  assumes "V5008_parse tpc buf now = Some im" and "buf \<noteq> []" and "hd buf = 0xAA"
  shows "colorMap im = None \<or> colorMap im = Some []"
proof -
  from ope_ack_decode [OF assms]
  have cm: "colorMap im =
         (if 10 < length buf \<and> buf ! 6 = 0xE4
          then Some (map unat (bytes_between buf (6 + (length buf - 10)) (length buf - 4)))
          else None)"
    and e: "bytes_between buf (6 + (length buf - 10)) (length buf - 4) = []"
    by simp_all
  show ?thesis
    unfolding cm e by simp
qed

subsection \<open>Failures of normalize\<close>

text \<open>
  Claim C10. A V5008 message of type \<open>LabelState\<close> without the \<open>items\<close> field:
  the promise returned by \<open>normalize\<close> is rejected with a \<open>TypeError\<close>.
\<close>

theorem missing_items_rejects:
  "normalizeData (Some label_state_without_items) cache = (Inl TypeError, cache)"
  by (simp add: normalizeData_def label_state_without_items_def blank_message_def
        processV5008_def truthy_str_def processV5008Rfid_def)

text \<open>The same for every such message, and for a V6800 RFID message without \<open>data\<close>.\<close>

lemma missing_items_rejects_any:
  assumes "deviceType pd = Some ''V5008''" and "messageType pd = Some ''LabelState''"
    and "items pd = None"
  shows "normalizeData (Some pd) cache = (Inl TypeError, cache)"
  using assms by (simp add: normalizeData_def processV5008_def truthy_str_def processV5008Rfid_def)

lemma missing_data_rejects_any:
  assumes "deviceType pd = Some ''V6800''" and "messageType pd = Some ''LABEL_STATE''"
    and "data pd = None"
  shows "normalizeData (Some pd) cache = (Inl TypeError, cache)"
  using assms by (simp add: normalizeData_def processV6800_def truthy_str_def processV6800Rfid_def)

text \<open>
  What does hold: \<open>null\<close>, an unknown device type and an unknown message type
  give the empty event list.
\<close>

lemma normalize_null: "normalizeData None cache = (Inr [], cache)"
  by (simp add: normalizeData_def)

lemma normalize_unknown_device:
  "deviceType pd \<noteq> Some ''V5008'' \<Longrightarrow> deviceType pd \<noteq> Some ''V6800'' \<Longrightarrow>
     normalizeData (Some pd) cache = (Inr [], cache)"
  by (simp add: normalizeData_def)

lemma normalize_unknown_type:
  assumes "messageType pd \<notin> {Some ''OpeAck'', Some ''LabelState'', Some ''TemHum'', Some ''Noise'',
              Some ''HeartBeat'', Some ''HEARTBEAT'', Some ''LABEL_STATE'', Some ''TEM_HUM'',
              Some ''DOOR_STATE'', Some ''INIT'', Some ''OPE_ACK''}"
  shows "normalizeData (Some pd) cache = (Inr [], cache)"
  using assms by (simp add: normalizeData_def processV5008_def processV6800_def)

end
